theory Spec2Isabelle
  imports Main "HOL-Library.Word"
begin

section \<open>Trusted-state synchronisation (package l2\_shared)\<close>

text \<open>
  A shallow embedding of \<^verbatim>\<open>synchronizer/l2_sync/l2_shared/sync_trusted_state.go\<close>.

  \<^item> Go's \<^verbatim>\<open>uint64\<close> is \<open>64 word\<close>: \<open>+\<close> and \<open>-\<close> wrap around, \<open>\<le>\<close> and \<open><\<close> compare
    the unsigned values.
  \<^item> A Go pointer is an \<open>option\<close> (\<open>None\<close> is \<^verbatim>\<open>nil\<close>); a Go \<^verbatim>\<open>error\<close> value is an
    \<open>error option\<close> (\<open>None\<close> is \<^verbatim>\<open>nil\<close>); a function returning \<^verbatim>\<open>(v, err)\<close> returns the
    pair, both components as the callee produced them.
  \<^item> The collaborators (remote client, local store, executor, flush check, the
    transaction's Commit and Rollback) are interfaces: they are the fields of an
    environment record, each a function on an abstract world \<open>'w\<close> that it may change.
  \<^item> Every completed collaborator call is appended to a trace, with its arguments and
    its results, so that statements such as "no lookup is made" can be written down.
  \<^item> Dereferencing a nil pointer panics: \<open>Panics\<close> is an outcome of its own.
  \<^item> The \<^verbatim>\<open>for\<close> loop may run forever (its counter wraps around at \<open>2^64\<close>), so it is a
    partial function: \<open>None\<close> means that the call does not return.
  \<^item> Logging, \<^verbatim>\<open>time.Now\<close> and the \<^verbatim>\<open>context.Context\<close> argument, which the code hands unchanged
    to every callee, are left out.
\<close>

subsection \<open>Data\<close>

type_synonym u64 = "64 word"

text \<open>\<^verbatim>\<open>common.Hash\<close>: 32 bytes.\<close>
type_synonym common_Hash = "256 word"

text \<open>
  \<^verbatim>\<open>pgx.Tx\<close>: an opaque handle; its methods are \<open>dbTx_Commit\<close> and \<open>dbTx_Rollback\<close> below.
  A handle is never nil: the model has no \<^verbatim>\<open>BeginStateTransaction\<close> that returns a nil
  transaction together with a nil error.
\<close>
type_synonym pgx_Tx = nat

text \<open>A non-nil Go \<^verbatim>\<open>error\<close>; \<^verbatim>\<open>state.ErrNotFound\<close> is the one sentinel the code compares with.\<close>
datatype error = ErrNotFound | Error string

text \<open>
  Modelled from the spec: \<^verbatim>\<open>types.Batch\<close> (package jsonrpc/types) is not part of the sources.
  The spec's RemoteBatch is a snapshot "(number, contents, reported state root)"; the
  code reads only \<^verbatim>\<open>Number\<close>, converts it with \<^verbatim>\<open>uint64(...)\<close> and subtracts 1 from it in its
  own type, an unsigned 64-bit integer.
\<close>
record types_Batch =
  Number :: u64
  BatchL2Data :: "8 word list"
  StateRoot :: common_Hash

text \<open>
  Modelled from the spec: \<^verbatim>\<open>state.Batch\<close> (package state) is not part of the sources. The
  spec's LocalBatch is a "persisted local record for a batch number" that carries a state
  root; the code reads only \<^verbatim>\<open>BatchNumber\<close>, a \<^verbatim>\<open>uint64\<close>.
\<close>
record state_Batch =
  BatchNumber :: u64
  LocalStateRoot :: common_Hash

record StateRootEntry =
  batchNumber :: u64
  EntryStateRoot :: common_Hash

text \<open>\<open>LastTrustedBatches\<close>: slot 0 is the current batch, slot 1 the previous one.\<close>
record TrustedState =
  LastTrustedBatches :: "state_Batch option list"
  LastStateRoot :: "StateRootEntry option"

subsection \<open>Collaborators, trace and engine state\<close>

text \<open>One completed call of a collaborator: its arguments, then what it returned.\<close>
datatype event =
    EBatchNumber u64 "error option"
  | EBatchByNumber int "types_Batch option" "error option"
  | EGetTrustedBatchInfoTime
  | EBeginStateTransaction pgx_Tx "error option"
  | EGetBatchByNumber u64 pgx_Tx "state_Batch option" "error option"
  | EProcessTrustedBatch "types_Batch option" TrustedState pgx_Tx "TrustedState option"
      "error option"
  | EProcessTrustedBatchTime
  | ECheckFlushID pgx_Tx "error option"
  | ECommit pgx_Tx "error option"
  | ERollback pgx_Tx "error option"

text \<open>
  The interfaces \<^verbatim>\<open>ZkEVMClientInterface\<close>, \<^verbatim>\<open>StateInterface\<close>, \<^verbatim>\<open>BatchExecutor\<close>, \<^verbatim>\<open>SyncInterface\<close>
  and the two methods of \<^verbatim>\<open>pgx.Tx\<close> that the engine calls. \<^verbatim>\<open>BatchByNumber\<close> takes a
  \<^verbatim>\<open>*big.Int\<close>, an unbounded integer.
\<close>
record 'w env =
  zkEVMClient_BatchNumber :: "'w \<Rightarrow> (u64 \<times> error option) \<times> 'w"
  zkEVMClient_BatchByNumber :: "int \<Rightarrow> 'w \<Rightarrow> (types_Batch option \<times> error option) \<times> 'w"
  state_BeginStateTransaction :: "'w \<Rightarrow> (pgx_Tx \<times> error option) \<times> 'w"
  state_GetBatchByNumber :: "u64 \<Rightarrow> pgx_Tx \<Rightarrow> 'w \<Rightarrow> (state_Batch option \<times> error option) \<times> 'w"
  steps_ProcessTrustedBatch ::
    "types_Batch option \<Rightarrow> TrustedState \<Rightarrow> pgx_Tx \<Rightarrow> 'w \<Rightarrow>
       (TrustedState option \<times> error option) \<times> 'w"
  sync_CheckFlushID :: "pgx_Tx \<Rightarrow> 'w \<Rightarrow> error option \<times> 'w"
  dbTx_Commit :: "pgx_Tx \<Rightarrow> 'w \<Rightarrow> error option \<times> 'w"
  dbTx_Rollback :: "pgx_Tx \<Rightarrow> 'w \<Rightarrow> error option \<times> 'w"

text \<open>
  What a call can change: the collaborators' world, the field \<^verbatim>\<open>s.TrustedState\<close> of
  \<^verbatim>\<open>SyncTrustedStateTemplate\<close> (the cache) and the trace. The cache is a value that only the
  engine writes: a collaborator that changes the cached batches through the slice or the
  pointers it was handed is not modelled.
\<close>
record 'w machine =
  world :: 'w
  cache :: TrustedState
  trace :: "event list"

datatype 'a exec = Returns 'a | Panics

definition emit :: "'w \<Rightarrow> event \<Rightarrow> 'w machine \<Rightarrow> 'w machine" where
  "emit w e m = m\<lparr>world := w, trace := trace m @ [e]\<rparr>"

text \<open>The events a run from \<open>m\<close> to \<open>m'\<close> has added to the trace.\<close>
definition new_events :: "'w machine \<Rightarrow> 'w machine \<Rightarrow> event list" where
  "new_events m m' = drop (length (trace m)) (trace m')"

subsection \<open>The engine\<close>

text \<open>\<^verbatim>\<open>NewSyncTrustedStateTemplate\<close> starts with \<^verbatim>\<open>TrustedState{}\<close>; \<^verbatim>\<open>CleanTrustedState\<close> resets to it.\<close>
definition empty_TrustedState :: TrustedState where
  "empty_TrustedState = \<lparr>LastTrustedBatches = [], LastStateRoot = None\<rparr>"

definition CleanTrustedState :: "'w machine \<Rightarrow> 'w machine" where
  "CleanTrustedState m = m\<lparr>cache := empty_TrustedState\<rparr>"

definition isSyncrhonizedTrustedState :: "u64 \<Rightarrow> u64 \<Rightarrow> bool" where
  "isSyncrhonizedTrustedState lastTrustedStateBatchNumber latestSyncedBatch =
     (lastTrustedStateBatchNumber < latestSyncedBatch)"

definition rollback ::
  "'w env \<Rightarrow> pgx_Tx \<Rightarrow> error option \<Rightarrow> 'w machine \<Rightarrow> error option \<times> 'w machine" where
  "rollback env dbTx err m =
     (let (rollbackErr, w) = dbTx_Rollback env dbTx (world m);
          m1 = emit w (ERollback dbTx rollbackErr) m
      in if rollbackErr \<noteq> None then (rollbackErr, m1) else (err, m1))"

text \<open>
  The test of lines 185 and 193, for \<open>k\<close> the number compared with:
  \<^verbatim>\<open>len(batches) == 0 || batches[0] == nil || (batches[0] != nil && k != batches[0].BatchNumber)\<close>.
\<close>
definition batch0_differs :: "state_Batch option list \<Rightarrow> u64 \<Rightarrow> bool" where
  "batch0_differs batches k =
     (case batches of
        [] \<Rightarrow> True
      | None # _ \<Rightarrow> True
      | Some b0 # _ \<Rightarrow> k \<noteq> BatchNumber b0)"

text \<open>
  A nil \<^verbatim>\<open>trustedBatch\<close> panics before any call is made: \<^verbatim>\<open>trustedBatch.Number\<close> is read by
  the test of line 185 or, when that test is cut short, for the argument of line 187.
  \<^verbatim>\<open>prevBatch = batches[0]\<close> (line 201) would panic on an empty slice; the test of line
  193 has excluded it.
\<close>
definition getCurrentBatches ::
  "'w env \<Rightarrow> state_Batch option list \<Rightarrow> types_Batch option \<Rightarrow> pgx_Tx \<Rightarrow> 'w machine \<Rightarrow>
     (state_Batch option list \<times> error option) exec \<times> 'w machine" where
  "getCurrentBatches env batches trustedBatch dbTx m =
     (case trustedBatch of
        None \<Rightarrow> (Panics, m)
      | Some tb \<Rightarrow>
          if batch0_differs batches (Number tb) then
            (let ((batch, err), w1) = state_GetBatchByNumber env (Number tb) dbTx (world m);
                 m1 = emit w1 (EGetBatchByNumber (Number tb) dbTx batch err) m
             in if err \<noteq> None \<and> err \<noteq> Some ErrNotFound then (Returns ([], err), m1)
                else if batch0_differs batches (Number tb - 1) then
                  (let ((prevBatch, err), w2) =
                         state_GetBatchByNumber env (Number tb - 1) dbTx (world m1);
                       m2 = emit w2 (EGetBatchByNumber (Number tb - 1) dbTx prevBatch err) m1
                   in if err \<noteq> None \<and> err \<noteq> Some ErrNotFound then (Returns ([], err), m2)
                      else (Returns ([batch, prevBatch], None), m2))
                else
                  (case batches of
                     [] \<Rightarrow> (Panics, m1)
                   | batch0 # _ \<Rightarrow> (Returns ([batch, batch0], None), m1)))
          else (Returns (batches, None), m))"

text \<open>
  One pass through the body of the loop of \<^verbatim>\<open>syncTrustedBatchesToFrom\<close>, lines 123 to 168:
  \<open>Some r\<close> when the pass leaves the function with \<open>r\<close>, \<open>None\<close> when it reaches the
  increment of the counter.
\<close>
definition syncTrustedBatchesToFrom_body ::
  "'w env \<Rightarrow> u64 \<Rightarrow> 'w machine \<Rightarrow> error option exec option \<times> 'w machine" where
  "syncTrustedBatchesToFrom_body env batchNumberToSync m =
     (let ((batchToSync, err), w1) =
            zkEVMClient_BatchByNumber env (uint batchNumberToSync) (world m);
          m1 = emit w1 (EBatchByNumber (uint batchNumberToSync) batchToSync err) m;
          m2 = emit w1 EGetTrustedBatchInfoTime m1
      in if err \<noteq> None then (Some (Returns err), m2)
         else
           (let ((dbTx, err), w3) = state_BeginStateTransaction env (world m2);
                m3 = emit w3 (EBeginStateTransaction dbTx err) m2
            in if err \<noteq> None then (Some (Returns err), m3)
               else
                 (case getCurrentBatches env (LastTrustedBatches (cache m3)) batchToSync dbTx m3 of
                    (Panics, m4) \<Rightarrow> (Some Panics, m4)
                  | (Returns (cbatches, err), m4) \<Rightarrow>
                      if err \<noteq> None then
                        (let (r, m5) = rollback env dbTx err m4 in (Some (Returns r), m5))
                      else
                        (let previousStatus =
                               \<lparr>LastTrustedBatches = cbatches,
                                LastStateRoot = LastStateRoot (cache m4)\<rparr>;
                             ((newTrustedState, err), w5) =
                               steps_ProcessTrustedBatch env batchToSync previousStatus dbTx
                                 (world m4);
                             m5 = emit w5
                                    (EProcessTrustedBatch batchToSync previousStatus dbTx
                                       newTrustedState err) m4;
                             m6 = emit w5 EProcessTrustedBatchTime m5
                         in if err \<noteq> None then
                              (let (r, m7) = rollback env dbTx err m6 in (Some (Returns r), m7))
                            else
                              (let (err, w7) = sync_CheckFlushID env dbTx (world m6);
                                   m7 = emit w7 (ECheckFlushID dbTx err) m6
                               in if err \<noteq> None then
                                    (let (r, m8) = rollback env dbTx err m7
                                     in (Some (Returns r), m8))
                                  else
                                    (let (err, w8) = dbTx_Commit env dbTx (world m7);
                                         m8 = emit w8 (ECommit dbTx err) m7
                                     in if err \<noteq> None then (Some (Returns err), m8)
                                        else
                                          (case newTrustedState of
                                             None \<Rightarrow> (Some Panics, m8)
                                           | Some ts \<Rightarrow> (None, m8\<lparr>cache := ts\<rparr>))))))))"

text \<open>
  The loop \<^verbatim>\<open>for batchNumberToSync <= lastTrustedStateBatchNumber { ...; batchNumberToSync++ }\<close>
  and the \<^verbatim>\<open>return nil\<close> after it.
\<close>
partial_function (option) syncTrustedBatchesToFrom_loop ::
  "'w env \<Rightarrow> u64 \<Rightarrow> u64 \<Rightarrow> 'w machine \<Rightarrow> (error option exec \<times> 'w machine) option" where
  "syncTrustedBatchesToFrom_loop env lastTrustedStateBatchNumber batchNumberToSync m =
     (if batchNumberToSync \<le> lastTrustedStateBatchNumber then
        (case syncTrustedBatchesToFrom_body env batchNumberToSync m of
           (Some r, m') \<Rightarrow> Some (r, m')
         | (None, m') \<Rightarrow>
             syncTrustedBatchesToFrom_loop env lastTrustedStateBatchNumber (batchNumberToSync + 1) m')
      else Some (Returns None, m))"

definition syncTrustedBatchesToFrom ::
  "'w env \<Rightarrow> u64 \<Rightarrow> u64 \<Rightarrow> 'w machine \<Rightarrow> (error option exec \<times> 'w machine) option" where
  "syncTrustedBatchesToFrom env latestSyncedBatch lastTrustedStateBatchNumber m =
     syncTrustedBatchesToFrom_loop env lastTrustedStateBatchNumber latestSyncedBatch m"

definition SyncTrustedState ::
  "'w env \<Rightarrow> u64 \<Rightarrow> 'w machine \<Rightarrow> (error option exec \<times> 'w machine) option" where
  "SyncTrustedState env latestSyncedBatch0 m =
     (let latestSyncedBatch = (if latestSyncedBatch0 = 0 then 1 else latestSyncedBatch0);
          ((lastTrustedStateBatchNumber, err), w1) = zkEVMClient_BatchNumber env (world m);
          m1 = emit w1 (EBatchNumber lastTrustedStateBatchNumber err) m
      in if err \<noteq> None then Some (Returns err, m1)
         else if isSyncrhonizedTrustedState lastTrustedStateBatchNumber latestSyncedBatch
         then Some (Returns None, m1)
         else syncTrustedBatchesToFrom env latestSyncedBatch lastTrustedStateBatchNumber m1)"

subsection \<open>Reading a trace\<close>

text \<open>A lookup in the local store.\<close>
fun is_lookup :: "event \<Rightarrow> bool" where
  "is_lookup (EGetBatchByNumber k tx b e) = True"
| "is_lookup _ = False"

text \<open>The batch numbers requested from the remote ledger, in the order of the requests.\<close>
fun fetched :: "event list \<Rightarrow> int list" where
  "fetched [] = []"
| "fetched (EBatchByNumber k b e # evs) = k # fetched evs"
| "fetched (ev # evs) = fetched evs"

text \<open>
  The batch numbers whose transaction was committed: at every Commit that returned nil,
  the number last requested from the remote ledger (\<open>cur\<close>, if any).
\<close>
fun committed_from :: "int option \<Rightarrow> event list \<Rightarrow> int list" where
  "committed_from cur [] = []"
| "committed_from cur (EBatchByNumber k b e # evs) = committed_from (Some k) evs"
| "committed_from (Some k) (ECommit tx None # evs) = k # committed_from (Some k) evs"
| "committed_from cur (ev # evs) = committed_from cur evs"

definition committed :: "event list \<Rightarrow> int list" where
  "committed evs = committed_from None evs"

text \<open>The windows handed to the executor, one for each call of \<^verbatim>\<open>ProcessTrustedBatch\<close>, in order.\<close>
fun executor_windows :: "event list \<Rightarrow> state_Batch option list list" where
  "executor_windows [] = []"
| "executor_windows (EProcessTrustedBatch b st tx nts err # evs) =
     LastTrustedBatches st # executor_windows evs"
| "executor_windows (ev # evs) = executor_windows evs"

text \<open>
  \<open>j\<close> passes through the body of the loop, the counter starting at \<open>n\<close>, none of them
  leaving the function: the engine state at the head of the loop after them.
\<close>
fun iterate_body :: "'w env \<Rightarrow> u64 \<Rightarrow> nat \<Rightarrow> 'w machine \<Rightarrow> 'w machine option" where
  "iterate_body env n 0 m = Some m"
| "iterate_body env n (Suc j) m =
     (case syncTrustedBatchesToFrom_body env n m of
        (None, m') \<Rightarrow> iterate_body env (n + 1) j m'
      | (Some r, m') \<Rightarrow> None)"

text \<open>
  The invariant of the spec's data model, in its words: "when both slots are populated,
  slot 0's number is exactly slot 1's number + 1". The code has no such test.
\<close>
definition contiguous :: "state_Batch option list \<Rightarrow> bool" where
  "contiguous batches =
     (case batches of
        Some b0 # Some b1 # _ \<Rightarrow> BatchNumber b0 = BatchNumber b1 + 1
      | _ \<Rightarrow> True)"

subsection \<open>Scripted collaborators\<close>

text \<open>
  Collaborators without a state of their own, for running the engine on concrete inputs:
  the remote tip, the remote batches, the local batches, the executor's answer and the
  results of CheckFlushID, Commit and Rollback are given; every transaction has handle 7.
\<close>
definition scripted ::
  "u64 \<Rightarrow> (int \<Rightarrow> types_Batch option \<times> error option) \<Rightarrow>
   (u64 \<Rightarrow> state_Batch option \<times> error option) \<Rightarrow>
   (types_Batch option \<Rightarrow> TrustedState \<Rightarrow> TrustedState option \<times> error option) \<Rightarrow>
   error option \<Rightarrow> error option \<Rightarrow> error option \<Rightarrow> unit env" where
  "scripted tip remote store executor flush commit rollbk =
     \<lparr>zkEVMClient_BatchNumber = (\<lambda>w. ((tip, None), w)),
      zkEVMClient_BatchByNumber = (\<lambda>k w. (remote k, w)),
      state_BeginStateTransaction = (\<lambda>w. ((7, None), w)),
      state_GetBatchByNumber = (\<lambda>k tx w. (store k, w)),
      steps_ProcessTrustedBatch = (\<lambda>b st tx w. (executor b st, w)),
      sync_CheckFlushID = (\<lambda>tx w. (flush, w)),
      dbTx_Commit = (\<lambda>tx w. (commit, w)),
      dbTx_Rollback = (\<lambda>tx w. (rollbk, w))\<rparr>"

text \<open>A freshly constructed engine: empty cache, nothing called yet.\<close>
definition fresh :: "unit machine" where
  "fresh = \<lparr>world = (), cache = empty_TrustedState, trace = []\<rparr>"

text \<open>The remote batch and the local batch with a given number, with no content.\<close>
definition remote_batch :: "u64 \<Rightarrow> types_Batch" where
  "remote_batch k = \<lparr>Number = k, BatchL2Data = [], StateRoot = 0\<rparr>"

definition local_batch :: "u64 \<Rightarrow> state_Batch" where
  "local_batch k = \<lparr>BatchNumber = k, LocalStateRoot = 0\<rparr>"

text \<open>A remote ledger that knows every batch, and one that knows only batch \<open>k\<close>.\<close>
definition remote_all :: "int \<Rightarrow> types_Batch option \<times> error option" where
  "remote_all k = (Some (remote_batch (word_of_int k)), None)"

definition remote_only :: "int \<Rightarrow> int \<Rightarrow> types_Batch option \<times> error option" where
  "remote_only k i =
     (if i = k then (Some (remote_batch (word_of_int i)), None)
      else (None, Some (Error ''unknown batch'')))"

text \<open>An empty local store, and one that holds every batch.\<close>
definition store_empty :: "u64 \<Rightarrow> state_Batch option \<times> error option" where
  "store_empty k = (None, Some ErrNotFound)"

definition store_all :: "u64 \<Rightarrow> state_Batch option \<times> error option" where
  "store_all k = (Some (local_batch k), None)"

text \<open>
  An executor that answers with the window made of the batch it was given and the
  previous batch it found in slot 1; one that answers with a fixed window.
\<close>
definition executor_roll ::
  "types_Batch option \<Rightarrow> TrustedState \<Rightarrow> TrustedState option \<times> error option" where
  "executor_roll b st =
     (case b of
        None \<Rightarrow> (None, Some (Error ''no batch''))
      | Some tb \<Rightarrow>
          (Some \<lparr>LastTrustedBatches =
                   [Some (local_batch (Number tb)),
                    (case LastTrustedBatches st of _ # b1 # _ \<Rightarrow> b1 | _ \<Rightarrow> None)],
                 LastStateRoot = Some \<lparr>batchNumber = Number tb, EntryStateRoot = 0\<rparr>\<rparr>,
           None))"

definition executor_const ::
  "TrustedState \<Rightarrow> types_Batch option \<Rightarrow> TrustedState \<Rightarrow> TrustedState option \<times> error option" where
  "executor_const ts b st = (Some ts, None)"

text \<open>An executor that fails on the batch numbered \<open>k\<close> and answers as \<open>executor_roll\<close> otherwise.\<close>
definition executor_fail_at ::
  "u64 \<Rightarrow> error \<Rightarrow> types_Batch option \<Rightarrow> TrustedState \<Rightarrow> TrustedState option \<times> error option" where
  "executor_fail_at k e b st =
     (if map_option Number b = Some k then (None, Some e) else executor_roll b st)"

text \<open>A local store that is empty and whose lookup of batch \<open>k\<close> fails with \<open>e\<close>.\<close>
definition store_broken_at :: "u64 \<Rightarrow> error \<Rightarrow> u64 \<Rightarrow> state_Batch option \<times> error option" where
  "store_broken_at k e i = (if i = k then (None, Some e) else (None, Some ErrNotFound))"

text \<open>
  The contract of \<^verbatim>\<open>GetBatchByNumber\<close> that the engine relies on without testing it: a batch
  that the store returns bears the number it was asked for.
\<close>
definition returns_requested :: "'w env \<Rightarrow> bool" where
  "returns_requested env =
     (\<forall>k tx w. case fst (fst (state_GetBatchByNumber env k tx w)) of
        None \<Rightarrow> True
      | Some b \<Rightarrow> BatchNumber b = k)"

subsection \<open>Examples\<close>

text \<open>
  The result, the final state and the events of one pass through the body of the loop, and
  the engine state after \<open>j\<close> passes that all reach the increment (the state itself if
  one of them does not).
\<close>
definition pass_result :: "'w env \<Rightarrow> u64 \<Rightarrow> 'w machine \<Rightarrow> error option exec option" where
  "pass_result env n m = fst (syncTrustedBatchesToFrom_body env n m)"

definition pass_state :: "'w env \<Rightarrow> u64 \<Rightarrow> 'w machine \<Rightarrow> 'w machine" where
  "pass_state env n m = snd (syncTrustedBatchesToFrom_body env n m)"

definition pass_events :: "'w env \<Rightarrow> u64 \<Rightarrow> 'w machine \<Rightarrow> event list" where
  "pass_events env n m = new_events m (pass_state env n m)"

definition after_passes :: "'w env \<Rightarrow> u64 \<Rightarrow> nat \<Rightarrow> 'w machine \<Rightarrow> 'w machine" where
  "after_passes env n j m = (case iterate_body env n j m of None \<Rightarrow> m | Some m' \<Rightarrow> m')"

text \<open>
  Collaborators that all succeed, over an empty local store and over a local store that
  holds every batch; an executor that fails on batch \<open>k\<close>; a flush check that fails;
  a Commit that fails; a local store whose lookup of batch \<open>k\<close> fails; an executor
  that answers with the batches 5 and 7; a remote ledger with tip \<open>2^64 - 1\<close> that knows
  no other batch.
\<close>
definition env_ok :: "u64 \<Rightarrow> unit env" where
  "env_ok tip = scripted tip remote_all store_empty executor_roll None None None"

definition env_executor_fails :: "u64 \<Rightarrow> u64 \<Rightarrow> unit env" where
  "env_executor_fails tip k =
     scripted tip remote_all store_empty (executor_fail_at k (Error ''bad batch'')) None None None"

definition env_flush_fails :: "error option \<Rightarrow> unit env" where
  "env_flush_fails rollbk =
     scripted 1 remote_all store_empty executor_roll (Some (Error ''flush pending'')) None rollbk"

definition env_commit_fails :: "unit env" where
  "env_commit_fails =
     scripted 1 remote_all store_empty executor_roll None (Some (Error ''commit failed'')) None"

definition gap_window :: TrustedState where
  "gap_window =
     \<lparr>LastTrustedBatches = [Some (local_batch 5), Some (local_batch 7)], LastStateRoot = None\<rparr>"

definition env_gap :: "unit env" where
  "env_gap = scripted 5 remote_all store_all (executor_const gap_window) None None None"

definition env_full :: "u64 \<Rightarrow> unit env" where
  "env_full tip = scripted tip remote_all store_all executor_roll None None None"

text \<open>
  Collaborators that all succeed, over a local store that holds every batch, with an
  executor that answers with an empty window.
\<close>
definition env_forgetful :: "unit env" where
  "env_forgetful =
     scripted 2 remote_all store_all (executor_const empty_TrustedState) None None None"

definition env_store_broken :: "u64 \<Rightarrow> unit env" where
  "env_store_broken k =
     scripted 1 remote_all (store_broken_at k (Error ''db down'')) executor_roll None None None"

definition env_wrap :: "unit env" where
  "env_wrap =
     scripted 18446744073709551615 (remote_only 18446744073709551615) store_empty executor_roll
       None None None"

definition with_cache :: "state_Batch option list \<Rightarrow> unit machine" where
  "with_cache batches = fresh\<lparr>cache := \<lparr>LastTrustedBatches = batches, LastStateRoot = None\<rparr>\<rparr>"

text \<open>
  The engine state when the body of the loop has fetched batch \<open>b\<close> and opened
  transaction \<open>dbTx\<close>, both without error (line 138).
\<close>
definition after_begin ::
  "'w machine \<Rightarrow> int \<Rightarrow> types_Batch option \<Rightarrow> 'w \<Rightarrow> pgx_Tx \<Rightarrow> 'w \<Rightarrow> 'w machine" where
  "after_begin m k b w1 dbTx w2 =
     emit w2 (EBeginStateTransaction dbTx None)
       (emit w1 EGetTrustedBatchInfoTime (emit w1 (EBatchByNumber k b None) m))"

section \<open>Basic facts\<close>

lemmas run_defs =
  syncTrustedBatchesToFrom_body_def getCurrentBatches_def batch0_differs_def rollback_def
  emit_def new_events_def scripted_def fresh_def empty_TrustedState_def remote_batch_def
  local_batch_def remote_all_def remote_only_def store_empty_def store_all_def
  store_broken_at_def executor_roll_def executor_const_def executor_fail_at_def Let_def

lemmas example_defs =
  after_passes_def pass_result_def pass_state_def pass_events_def env_ok_def
  env_executor_fails_def env_flush_fails_def env_commit_fails_def gap_window_def env_gap_def
  env_full_def env_forgetful_def env_store_broken_def env_wrap_def with_cache_def

lemma pass_eq: "syncTrustedBatchesToFrom_body env n m = (pass_result env n m, pass_state env n m)"
  by (simp add: pass_result_def pass_state_def)

lemma new_events_trace: "trace m' = trace m @ evs \<Longrightarrow> new_events m m' = evs"
  by (simp add: new_events_def)

lemma fetched_append: "fetched (xs @ ys) = fetched xs @ fetched ys"
  by (induction xs rule: fetched.induct) simp_all

lemma fetched_lookups: "list_all is_lookup ls \<Longrightarrow> fetched ls = []"
  by (induction ls rule: fetched.induct) simp_all

lemma committed_from_append:
  "committed_from c (xs @ ys) =
   committed_from c xs @
   committed_from (if fetched xs = [] then c else Some (last (fetched xs))) ys"
  by (induction c xs rule: committed_from.induct) simp_all

lemma committed_from_lookups: "list_all is_lookup ls \<Longrightarrow> committed_from c ls = []"
  by (induction c ls rule: committed_from.induct) simp_all

lemma trace_emit [simp]: "trace (emit w e m) = trace m @ [e]"
  and world_emit [simp]: "world (emit w e m) = w"
  and cache_emit [simp]: "cache (emit w e m) = cache m"
  by (simp_all add: emit_def)

lemma new_events_emit [simp]: "new_events m (emit w e m) = [e]"
  by (simp add: new_events_def)

lemma new_events_self [simp]: "new_events m m = []"
  by (simp add: new_events_def)

lemma in_lookups [simp]: "list_all is_lookup ls \<Longrightarrow> \<not> is_lookup ev \<Longrightarrow> ev \<notin> set ls"
  by (auto simp: list_all_iff)

lemma unat_Suc_le: "unat (n + 1 :: u64) \<le> unat n + 1"
  by (simp add: unat_word_ariths)

lemma unat_add_of_nat:
  assumes "unat (a::u64) + j \<le> unat (t::u64)"
  shows "unat (a + of_nat j) = unat a + j"
proof -
  have "unat t < 2 ^ 64" using unsigned_less [of t] by simp
  with assms have lt: "unat a + j < 2 ^ 64" by linarith
  then have "j < 2 ^ 64" by linarith
  with lt show ?thesis by (simp add: unat_word_ariths unat_of_nat)
qed

lemma uint_add_of_nat:
  assumes "unat (a::u64) + j \<le> unat (t::u64)"
  shows "uint (a + of_nat j) = uint a + int j"
  using unat_add_of_nat [OF assms] by (metis of_nat_add uint_nat)

lemma after_begin_simps [simp]:
  "trace (after_begin m k b w1 dbTx w2) =
     trace m @ [EBatchByNumber k b None, EGetTrustedBatchInfoTime, EBeginStateTransaction dbTx None]"
  "cache (after_begin m k b w1 dbTx w2) = cache m"
  "world (after_begin m k b w1 dbTx w2) = w2"
  by (simp_all add: after_begin_def)

subsection \<open>Window resolution\<close>

lemma gcb_events:
  assumes "getCurrentBatches env batches tbo dbTx m = (r, m')"
  shows "\<exists>ls. trace m' = trace m @ ls \<and> cache m' = cache m \<and> list_all is_lookup ls"
  using assms
  by (auto simp: getCurrentBatches_def emit_def Let_def
      split: option.splits if_splits prod.splits list.splits)

lemma gcb_Panics:
  assumes "getCurrentBatches env batches tbo dbTx m = (Panics, m')"
  shows "tbo = None \<and> m' = m"
  using assms
  by (auto simp: getCurrentBatches_def batch0_differs_def Let_def
      split: option.splits if_splits prod.splits list.splits)

lemma gcb_error:
  assumes "getCurrentBatches env batches tbo dbTx m = (Returns (cb, Some e), m')"
  shows "\<exists>ls k b. trace m' = trace m @ ls @ [EGetBatchByNumber k dbTx b (Some e)] \<and>
           list_all is_lookup ls \<and> e \<noteq> ErrNotFound \<and> cb = []"
  using assms
  by (auto simp: getCurrentBatches_def emit_def Let_def
      split: option.splits if_splits prod.splits list.splits)

lemma batch0_differs_iff:
  "batch0_differs batches k \<longleftrightarrow> \<not> (\<exists>b0 rest. batches = Some b0 # rest \<and> BatchNumber b0 = k)"
  by (auto simp: batch0_differs_def split: list.splits option.splits)

lemma gcb_reuse:
  assumes "\<not> batch0_differs batches (Number tb)"
  shows "getCurrentBatches env batches (Some tb) dbTx m = (Returns (batches, None), m)"
  using assms by (simp add: getCurrentBatches_def)

lemma gcb_two_lookups:
  assumes "batch0_differs batches (Number tb)" "batch0_differs batches (Number tb - 1)"
    and "state_GetBatchByNumber env (Number tb) dbTx (world m) = ((batch, err0), w3)"
    and "state_GetBatchByNumber env (Number tb - 1) dbTx w3 = ((prevBatch, err1), w4)"
  shows "getCurrentBatches env batches (Some tb) dbTx m =
      (if err0 \<noteq> None \<and> err0 \<noteq> Some ErrNotFound then
         (Returns ([], err0), emit w3 (EGetBatchByNumber (Number tb) dbTx batch err0) m)
       else
         (if err1 \<noteq> None \<and> err1 \<noteq> Some ErrNotFound then Returns ([], err1)
          else Returns ([batch, prevBatch], None),
          emit w4 (EGetBatchByNumber (Number tb - 1) dbTx prevBatch err1)
            (emit w3 (EGetBatchByNumber (Number tb) dbTx batch err0) m)))"
  using assms by (simp add: getCurrentBatches_def)

lemma gcb_first_lookup:
  assumes "batch0_differs batches (Number tb)"
    and "state_GetBatchByNumber env (Number tb) dbTx (world m) = ((batch, err), w1)"
  shows "\<exists>evs. new_events m (snd (getCurrentBatches env batches (Some tb) dbTx m)) =
           EGetBatchByNumber (Number tb) dbTx batch err # evs"
  using assms
  by (simp add: getCurrentBatches_def Let_def new_events_def emit_def
      split: list.splits prod.splits)

lemma gcb_roll:
  assumes "Number tb = BatchNumber b0 + 1"
    and "state_GetBatchByNumber env (Number tb) dbTx (world m) = ((batch, err), w1)"
  shows "getCurrentBatches env (Some b0 # rest) (Some tb) dbTx m =
           (if err \<noteq> None \<and> err \<noteq> Some ErrNotFound then Returns ([], err)
            else Returns ([batch, Some b0], None),
            emit w1 (EGetBatchByNumber (Number tb) dbTx batch err) m)"
  using assms by (simp add: getCurrentBatches_def batch0_differs_def)

lemma gcb_one_lookup:
  assumes "batch0_differs (Some b0 # rest) (Number tb)"
    and "BatchNumber b0 = Number tb - 1"
    and "state_GetBatchByNumber env (Number tb) dbTx (world m) = ((batch, err), w1)"
  shows "getCurrentBatches env (Some b0 # rest) (Some tb) dbTx m =
           (if err \<noteq> None \<and> err \<noteq> Some ErrNotFound then Returns ([], err)
            else Returns ([batch, Some b0], None),
            emit w1 (EGetBatchByNumber (Number tb) dbTx batch err) m)"
  using assms by (simp add: getCurrentBatches_def batch0_differs_def)

lemma gcb_slot0_error:
  assumes "batch0_differs batches (Number tb)"
    and "state_GetBatchByNumber env (Number tb) dbTx (world m) = ((batch, Some e), w1)"
    and "e \<noteq> ErrNotFound"
  shows "getCurrentBatches env batches (Some tb) dbTx m =
           (Returns ([], Some e), emit w1 (EGetBatchByNumber (Number tb) dbTx batch (Some e)) m)"
  using assms by (simp add: getCurrentBatches_def)

lemma returns_requestedD:
  assumes "returns_requested env"
    and "state_GetBatchByNumber env k tx w = ((Some b, e), w')"
  shows "BatchNumber b = k"
proof -
  from assms(1) have "case fst (fst (state_GetBatchByNumber env k tx w)) of
      None \<Rightarrow> True | Some b \<Rightarrow> BatchNumber b = k"
    unfolding returns_requested_def by blast
  with assms(2) show ?thesis by simp
qed

lemma gcb_contiguous:
  assumes rr: "returns_requested env"
    and c: "contiguous batches"
    and g: "getCurrentBatches env batches tbo dbTx m = (Returns (out, None), m')"
  shows "contiguous out"
proof (cases tbo)
  case None
  with g show ?thesis by (simp add: getCurrentBatches_def)
next
  case (Some tb)
  show ?thesis
  proof (cases "batch0_differs batches (Number tb)")
    case False
    with g Some c show ?thesis by (simp add: gcb_reuse)
  next
    case True
    obtain batch err0 w3 where
      l0: "state_GetBatchByNumber env (Number tb) dbTx (world m) = ((batch, err0), w3)"
      by (metis surj_pair)
    have b: "BatchNumber b = Number tb" if "batch = Some b" for b
      using returns_requestedD [OF rr l0 [unfolded that]] .
    show ?thesis
    proof (cases "batch0_differs batches (Number tb - 1)")
      case d1: True
      obtain prevBatch err1 w4 where
        l1: "state_GetBatchByNumber env (Number tb - 1) dbTx w3 = ((prevBatch, err1), w4)"
        by (metis surj_pair)
      have p: "BatchNumber b = Number tb - 1" if "prevBatch = Some b" for b
        using returns_requestedD [OF rr l1 [unfolded that]] .
      from g Some gcb_two_lookups [OF True d1 l0 l1] have "out = [batch, prevBatch]"
        by (auto split: if_splits)
      with b p show ?thesis
        by (auto simp: contiguous_def split: option.splits)
    next
      case False
      then obtain b0 rest where b0: "batches = Some b0 # rest" "BatchNumber b0 = Number tb - 1"
        by (auto simp: batch0_differs_iff)
      with g Some True l0 have "out = [batch, Some b0]"
        by (auto simp: getCurrentBatches_def batch0_differs_def Let_def split: if_splits)
      with b b0 show ?thesis
        by (auto simp: contiguous_def split: option.splits)
    qed
  qed
qed

subsection \<open>The loop body, path by path\<close>

lemma rollback_eq:
  "rollback env dbTx err m = (r, m') \<Longrightarrow>
   \<exists>rb w. m' = emit w (ERollback dbTx rb) m \<and> r = (if rb \<noteq> None then rb else err)"
  by (auto simp: rollback_def Let_def split: prod.splits if_splits)

lemma body_cases [consumes 1, case_names fetch_error begin_error nil_batch lookup_error
    process_error flush_error commit_error nil_state committed]:
  assumes body: "syncTrustedBatchesToFrom_body env n m = (res, m')"
  obtains
    (fetch_error) b e where
      "res = Some (Returns (Some e))" "cache m' = cache m"
      "trace m' = trace m @ [EBatchByNumber (uint n) b (Some e), EGetTrustedBatchInfoTime]"
  | (begin_error) b tx e where
      "res = Some (Returns (Some e))" "cache m' = cache m"
      "trace m' = trace m @ [EBatchByNumber (uint n) b None, EGetTrustedBatchInfoTime,
         EBeginStateTransaction tx (Some e)]"
  | (nil_batch) tx where
      "res = Some Panics" "cache m' = cache m"
      "trace m' = trace m @ [EBatchByNumber (uint n) None None, EGetTrustedBatchInfoTime,
         EBeginStateTransaction tx None]"
  | (lookup_error) b tx ls k lb e rb where
      "res = Some (Returns (Some (case rb of None \<Rightarrow> e | Some re \<Rightarrow> re)))" "cache m' = cache m"
      "trace m' = trace m @ [EBatchByNumber (uint n) b None, EGetTrustedBatchInfoTime,
         EBeginStateTransaction tx None] @ ls @
         [EGetBatchByNumber k tx lb (Some e), ERollback tx rb]"
      "list_all is_lookup ls" "e \<noteq> ErrNotFound"
  | (process_error) b tx ls st nts e rb where
      "res = Some (Returns (Some (case rb of None \<Rightarrow> e | Some re \<Rightarrow> re)))" "cache m' = cache m"
      "trace m' = trace m @ [EBatchByNumber (uint n) b None, EGetTrustedBatchInfoTime,
         EBeginStateTransaction tx None] @ ls @
         [EProcessTrustedBatch b st tx nts (Some e), EProcessTrustedBatchTime, ERollback tx rb]"
      "list_all is_lookup ls" "LastStateRoot st = LastStateRoot (cache m)"
      "\<exists>m3 m4. getCurrentBatches env (LastTrustedBatches (cache m)) b tx m3 =
         (Returns (LastTrustedBatches st, None), m4)"
  | (flush_error) b tx ls st nts e rb where
      "res = Some (Returns (Some (case rb of None \<Rightarrow> e | Some re \<Rightarrow> re)))" "cache m' = cache m"
      "trace m' = trace m @ [EBatchByNumber (uint n) b None, EGetTrustedBatchInfoTime,
         EBeginStateTransaction tx None] @ ls @
         [EProcessTrustedBatch b st tx nts None, EProcessTrustedBatchTime,
          ECheckFlushID tx (Some e), ERollback tx rb]"
      "list_all is_lookup ls" "LastStateRoot st = LastStateRoot (cache m)"
      "\<exists>m3 m4. getCurrentBatches env (LastTrustedBatches (cache m)) b tx m3 =
         (Returns (LastTrustedBatches st, None), m4)"
  | (commit_error) b tx ls st nts e where
      "res = Some (Returns (Some e))" "cache m' = cache m"
      "trace m' = trace m @ [EBatchByNumber (uint n) b None, EGetTrustedBatchInfoTime,
         EBeginStateTransaction tx None] @ ls @
         [EProcessTrustedBatch b st tx nts None, EProcessTrustedBatchTime,
          ECheckFlushID tx None, ECommit tx (Some e)]"
      "list_all is_lookup ls" "LastStateRoot st = LastStateRoot (cache m)"
      "\<exists>m3 m4. getCurrentBatches env (LastTrustedBatches (cache m)) b tx m3 =
         (Returns (LastTrustedBatches st, None), m4)"
  | (nil_state) b tx ls st where
      "res = Some Panics" "cache m' = cache m"
      "trace m' = trace m @ [EBatchByNumber (uint n) b None, EGetTrustedBatchInfoTime,
         EBeginStateTransaction tx None] @ ls @
         [EProcessTrustedBatch b st tx None None, EProcessTrustedBatchTime,
          ECheckFlushID tx None, ECommit tx None]"
      "list_all is_lookup ls" "LastStateRoot st = LastStateRoot (cache m)"
      "\<exists>m3 m4. getCurrentBatches env (LastTrustedBatches (cache m)) b tx m3 =
         (Returns (LastTrustedBatches st, None), m4)"
  | (committed) b tx ls st ts where
      "res = None" "cache m' = ts"
      "trace m' = trace m @ [EBatchByNumber (uint n) b None, EGetTrustedBatchInfoTime,
         EBeginStateTransaction tx None] @ ls @
         [EProcessTrustedBatch b st tx (Some ts) None, EProcessTrustedBatchTime,
          ECheckFlushID tx None, ECommit tx None]"
      "list_all is_lookup ls" "LastStateRoot st = LastStateRoot (cache m)"
      "\<exists>m3 m4. getCurrentBatches env (LastTrustedBatches (cache m)) b tx m3 =
         (Returns (LastTrustedBatches st, None), m4)"
proof -
  obtain b err w1 where F: "zkEVMClient_BatchByNumber env (uint n) (world m) = ((b, err), w1)"
    by (metis surj_pair)
  define m2 where "m2 = emit w1 EGetTrustedBatchInfoTime (emit w1 (EBatchByNumber (uint n) b err) m)"
  have m2: "trace m2 = trace m @ [EBatchByNumber (uint n) b err, EGetTrustedBatchInfoTime]"
    "cache m2 = cache m" "world m2 = w1"
    by (simp_all add: m2_def)
  show thesis
  proof (cases err)
    case (Some e)
    with body F have "res = Some (Returns (Some e))" "m' = m2"
      by (auto simp: syncTrustedBatchesToFrom_body_def m2_def)
    with Some m2 show thesis by (intro fetch_error) simp_all
  next
    case None
    obtain tx err3 w3 where B: "state_BeginStateTransaction env w1 = ((tx, err3), w3)"
      by (metis surj_pair)
    define m3 where "m3 = emit w3 (EBeginStateTransaction tx err3) m2"
    have m3: "trace m3 = trace m @ [EBatchByNumber (uint n) b None, EGetTrustedBatchInfoTime,
        EBeginStateTransaction tx err3]" "cache m3 = cache m" "world m3 = w3"
      using m2 None by (simp_all add: m3_def)
    show thesis
    proof (cases err3)
      case (Some e)
      with body F B None have "res = Some (Returns (Some e))" "m' = m3"
        by (auto simp: syncTrustedBatchesToFrom_body_def m2_def m3_def)
      with Some m3 show thesis by (intro begin_error) simp_all
    next
      case None3: None
      obtain r4 m4 where G: "getCurrentBatches env (LastTrustedBatches (cache m)) b tx m3 = (r4, m4)"
        by (metis surj_pair)
      have rest: "(case (r4, m4) of
             (Panics, m4) \<Rightarrow> (Some Panics, m4)
           | (Returns (cbatches, err), m4) \<Rightarrow>
               if err \<noteq> None then
                 (let (r, m5) = rollback env tx err m4 in (Some (Returns r), m5))
               else
                 (let previousStatus =
                        \<lparr>LastTrustedBatches = cbatches, LastStateRoot = LastStateRoot (cache m4)\<rparr>;
                      ((newTrustedState, err), w5) =
                        steps_ProcessTrustedBatch env b previousStatus tx (world m4);
                      m5 = emit w5 (EProcessTrustedBatch b previousStatus tx newTrustedState err) m4;
                      m6 = emit w5 EProcessTrustedBatchTime m5
                  in if err \<noteq> None then
                       (let (r, m7) = rollback env tx err m6 in (Some (Returns r), m7))
                     else
                       (let (err, w7) = sync_CheckFlushID env tx (world m6);
                            m7 = emit w7 (ECheckFlushID tx err) m6
                        in if err \<noteq> None then
                             (let (r, m8) = rollback env tx err m7 in (Some (Returns r), m8))
                           else
                             (let (err, w8) = dbTx_Commit env tx (world m7);
                                  m8 = emit w8 (ECommit tx err) m7
                              in if err \<noteq> None then (Some (Returns err), m8)
                                 else
                                   (case newTrustedState of
                                      None \<Rightarrow> (Some Panics, m8)
                                    | Some ts \<Rightarrow> (None, m8\<lparr>cache := ts\<rparr>)))))) = (res, m')"
        using body F B None None3 G
        by (simp add: syncTrustedBatchesToFrom_body_def m2_def m3_def)
      from gcb_events [OF G] m3 obtain ls where
        m4: "trace m4 = trace m @ [EBatchByNumber (uint n) b None, EGetTrustedBatchInfoTime,
          EBeginStateTransaction tx None] @ ls" "cache m4 = cache m" "list_all is_lookup ls"
        using None3 by auto
      show thesis
      proof (cases r4)
        case Panics
        with G gcb_Panics have "b = None" "m4 = m3" by blast+
        moreover from rest Panics have "res = Some Panics" "m' = m4" by simp_all
        ultimately show thesis using m3 None3 by (intro nil_batch) simp_all
      next
        case (Returns p)
        obtain cb err4 where p: "p = (cb, err4)" by (cases p)
        show thesis
        proof (cases err4)
          case (Some e)
          from gcb_error [OF G [unfolded Returns p Some]] m3 None3 obtain ls' k lb where
            l: "trace m4 = trace m @ [EBatchByNumber (uint n) b None, EGetTrustedBatchInfoTime,
              EBeginStateTransaction tx None] @ ls' @ [EGetBatchByNumber k tx lb (Some e)]"
            "list_all is_lookup ls'" "e \<noteq> ErrNotFound"
            by auto
          obtain r m5 where R: "rollback env tx (Some e) m4 = (r, m5)" by (metis surj_pair)
          from rollback_eq [OF R] obtain rb w where
            r: "m5 = emit w (ERollback tx rb) m4" "r = (if rb \<noteq> None then rb else Some e)"
            by blast
          from rest Returns p Some R have "res = Some (Returns r)" "m' = m5" by simp_all
          with r l m4 show thesis
            by (intro lookup_error) (auto split: option.splits)
        next
          case None4: None
          define st where "st = \<lparr>LastTrustedBatches = cb, LastStateRoot = LastStateRoot (cache m)\<rparr>"
          have st: "LastStateRoot st = LastStateRoot (cache m)"
            "\<exists>m3 m4. getCurrentBatches env (LastTrustedBatches (cache m)) b tx m3 =
               (Returns (LastTrustedBatches st, None), m4)"
            using G Returns p None4 by (auto simp: st_def)
          obtain nts err5 w5 where P: "steps_ProcessTrustedBatch env b st tx (world m4) = ((nts, err5), w5)"
            by (metis surj_pair)
          define m6 where "m6 = emit w5 EProcessTrustedBatchTime
            (emit w5 (EProcessTrustedBatch b st tx nts err5) m4)"
          have m6: "trace m6 = trace m @ [EBatchByNumber (uint n) b None, EGetTrustedBatchInfoTime,
            EBeginStateTransaction tx None] @ ls @
            [EProcessTrustedBatch b st tx nts err5, EProcessTrustedBatchTime]"
            "cache m6 = cache m" "world m6 = w5"
            using m4 by (simp_all add: m6_def)
          show thesis
          proof (cases err5)
            case (Some e)
            obtain r m7 where R: "rollback env tx (Some e) m6 = (r, m7)" by (metis surj_pair)
            from rollback_eq [OF R] obtain rb w where
              r: "m7 = emit w (ERollback tx rb) m6" "r = (if rb \<noteq> None then rb else Some e)"
              by blast
            from rest Returns p None4 P Some R m4 have "res = Some (Returns r)" "m' = m7"
              by (simp_all add: st_def m6_def)
            with r m6 m4 Some st show thesis
              by (intro process_error) (auto split: option.splits)
          next
            case None5: None
            obtain err7 w7 where C: "sync_CheckFlushID env tx w5 = (err7, w7)"
              by (metis surj_pair)
            define m7 where "m7 = emit w7 (ECheckFlushID tx err7) m6"
            show thesis
            proof (cases err7)
              case (Some e)
              obtain r m8 where R: "rollback env tx (Some e) m7 = (r, m8)" by (metis surj_pair)
              from rollback_eq [OF R] obtain rb w where
                r: "m8 = emit w (ERollback tx rb) m7" "r = (if rb \<noteq> None then rb else Some e)"
                by blast
              from rest Returns p None4 P None5 C Some R m4 have "res = Some (Returns r)" "m' = m8"
                by (simp_all add: st_def m6_def m7_def)
              with r m6 m4 Some None5 st show thesis
                by (intro flush_error) (auto simp: m7_def split: option.splits)
            next
              case None7: None
              obtain err8 w8 where K: "dbTx_Commit env tx w7 = (err8, w8)"
                by (metis surj_pair)
              define m8 where "m8 = emit w8 (ECommit tx err8) m7"
              have m8: "trace m8 = trace m @ [EBatchByNumber (uint n) b None, EGetTrustedBatchInfoTime,
                  EBeginStateTransaction tx None] @ ls @
                  [EProcessTrustedBatch b st tx nts None, EProcessTrustedBatchTime,
                   ECheckFlushID tx None, ECommit tx err8]"
                "cache m8 = cache m"
                using m6 None5 None7 by (simp_all add: m8_def m7_def)
              show thesis
              proof (cases err8)
                case (Some e)
                from rest Returns p None4 P None5 C None7 K Some m4
                have "res = Some (Returns (Some e))" "m' = m8"
                  by (simp_all add: st_def m6_def m7_def m8_def)
                with m8 m4 Some st show thesis
                  by (intro commit_error) auto
              next
                case None8: None
                show thesis
                proof (cases nts)
                  case None
                  from rest Returns p None4 P None5 C None7 K None8 None m4
                  have "res = Some Panics" "m' = m8"
                    by (simp_all add: st_def m6_def m7_def m8_def)
                  with m8 m4 None None8 st show thesis
                    by (intro nil_state) auto
                next
                  case (Some ts)
                  from rest Returns p None4 P None5 C None7 K None8 Some m4
                  have "res = None" "m' = m8\<lparr>cache := ts\<rparr>"
                    by (simp_all add: st_def m6_def m7_def m8_def)
                  with m8 m4 Some None8 st show thesis
                    by (intro committed) auto
                qed
              qed
            qed
          qed
        qed
      qed
    qed
  qed
qed

lemma body_resolution_failed:
  assumes fetch: "zkEVMClient_BatchByNumber env (uint n) (world m) = ((b, None), w1)"
    and beg: "state_BeginStateTransaction env w1 = ((dbTx, None), w2)"
    and g: "getCurrentBatches env (LastTrustedBatches (cache m)) b dbTx
              (after_begin m (uint n) b w1 dbTx w2) = (Returns (cb, Some e), m4)"
    and body: "syncTrustedBatchesToFrom_body env n m = (res, m')"
  shows "\<exists>rb. trace m' = trace m4 @ [ERollback dbTx rb] \<and>
              res = Some (Returns (Some (case rb of None \<Rightarrow> e | Some re \<Rightarrow> re)))"
proof -
  obtain rb w where r: "dbTx_Rollback env dbTx (world m4) = (rb, w)"
    by (metis surj_pair)
  from body fetch beg g r have
    "res = Some (Returns (if rb \<noteq> None then rb else Some e))"
    "m' = emit w (ERollback dbTx rb) m4"
    by (auto simp: syncTrustedBatchesToFrom_body_def after_begin_def rollback_def Let_def
        split: if_splits)
  then show ?thesis
    by (intro exI [of _ rb]) (auto split: option.splits)
qed

lemma body_resolved:
  assumes fetch: "zkEVMClient_BatchByNumber env (uint n) (world m) = ((b, None), w1)"
    and beg: "state_BeginStateTransaction env w1 = ((dbTx, None), w2)"
    and g: "getCurrentBatches env (LastTrustedBatches (cache m)) b dbTx
              (after_begin m (uint n) b w1 dbTx w2) = (Returns (cb, None), m4)"
    and body: "syncTrustedBatchesToFrom_body env n m = (res, m')"
  shows "\<exists>nts err evs. trace m' = trace m4 @
           EProcessTrustedBatch b
             \<lparr>LastTrustedBatches = cb, LastStateRoot = LastStateRoot (cache m)\<rparr> dbTx nts err # evs"
proof -
  from gcb_events [OF g] have c4: "cache m4 = cache m" by auto
  let ?st = "\<lparr>LastTrustedBatches = cb, LastStateRoot = LastStateRoot (cache m)\<rparr>"
  obtain nts err w5 where p: "steps_ProcessTrustedBatch env b ?st dbTx (world m4) = ((nts, err), w5)"
    by (metis surj_pair)
  define m6 where "m6 = emit w5 EProcessTrustedBatchTime (emit w5 (EProcessTrustedBatch b ?st dbTx nts err) m4)"
  have m6: "trace m6 = trace m4 @ [EProcessTrustedBatch b ?st dbTx nts err, EProcessTrustedBatchTime]"
    by (simp add: m6_def)
  have "\<exists>evs. trace m' = trace m6 @ evs"
    using body fetch beg g p c4 unfolding syncTrustedBatchesToFrom_body_def
    by (auto simp: Let_def after_begin_def [symmetric] m6 rollback_def
        split: prod.splits option.splits if_splits)
  with m6 show ?thesis by auto
qed

lemma body_resolved_tail:
  assumes fetch: "zkEVMClient_BatchByNumber env (uint n) (world m) = ((b, None), w1)"
    and beg: "state_BeginStateTransaction env w1 = ((dbTx, None), w2)"
    and g: "getCurrentBatches env (LastTrustedBatches (cache m)) b dbTx
              (after_begin m (uint n) b w1 dbTx w2) = (Returns (cb, None), m4)"
    and body: "syncTrustedBatchesToFrom_body env n m = (res, m')"
  shows "\<exists>nts err evs. trace m' = trace m4 @
           EProcessTrustedBatch b
             \<lparr>LastTrustedBatches = cb, LastStateRoot = LastStateRoot (cache m)\<rparr> dbTx nts err # evs \<and>
           filter is_lookup evs = [] \<and> executor_windows evs = []"
proof -
  from gcb_events [OF g] have c4: "cache m4 = cache m" by auto
  let ?st = "\<lparr>LastTrustedBatches = cb, LastStateRoot = LastStateRoot (cache m)\<rparr>"
  obtain nts err w5 where p: "steps_ProcessTrustedBatch env b ?st dbTx (world m4) = ((nts, err), w5)"
    by (metis surj_pair)
  define m6 where "m6 = emit w5 EProcessTrustedBatchTime (emit w5 (EProcessTrustedBatch b ?st dbTx nts err) m4)"
  have m6: "trace m6 = trace m4 @ [EProcessTrustedBatch b ?st dbTx nts err, EProcessTrustedBatchTime]"
    by (simp add: m6_def)
  have "\<exists>evs. trace m' = trace m6 @ evs \<and> filter is_lookup evs = [] \<and> executor_windows evs = []"
    using body fetch beg g p c4 unfolding syncTrustedBatchesToFrom_body_def
    by (auto simp: Let_def after_begin_def [symmetric] m6 rollback_def
        split: prod.splits option.splits if_splits)
  then obtain evs where "trace m' = trace m6 @ evs" "filter is_lookup evs = []"
    "executor_windows evs = []"
    by blast
  with m6 show ?thesis
    by (intro exI [of _ nts] exI [of _ err] exI [of _ "EProcessTrustedBatchTime # evs"]) simp
qed

lemma body_committed_cache:
  assumes "syncTrustedBatchesToFrom_body env n m = (None, m')"
    and "EProcessTrustedBatch b st tx (Some ts) err \<in> set (new_events m m')"
  shows "cache m' = ts"
  using assms by (cases rule: body_cases) (auto simp: new_events_def)

lemma body_roll_forward:
  assumes cache: "LastTrustedBatches (cache m) = Some b0 # rest"
    and fetch: "zkEVMClient_BatchByNumber env (uint n) (world m) = ((Some tb, None), w1)"
    and num: "Number tb = BatchNumber b0 + 1"
    and beg: "state_BeginStateTransaction env w1 = ((dbTx, None), w2)"
    and body: "syncTrustedBatchesToFrom_body env n m = (res, m')"
  shows "\<exists>batch err. filter is_lookup (new_events m m') =
            [EGetBatchByNumber (BatchNumber b0 + 1) dbTx batch err] \<and>
          (err = None \<or> err = Some ErrNotFound \<longrightarrow>
             executor_windows (new_events m m') = [[batch, Some b0]])"
proof -
  let ?m3 = "after_begin m (uint n) (Some tb) w1 dbTx w2"
  obtain batch err w3 where
    l: "state_GetBatchByNumber env (Number tb) dbTx w2 = ((batch, err), w3)"
    by (metis surj_pair)
  let ?m4 = "emit w3 (EGetBatchByNumber (Number tb) dbTx batch err) ?m3"
  note g = gcb_roll [of tb b0 env dbTx ?m3 batch err w3 rest, OF num, unfolded after_begin_simps,
      OF l, folded cache]
  show ?thesis
  proof (cases "err = None \<or> err = Some ErrNotFound")
    case True
    with g have "getCurrentBatches env (LastTrustedBatches (cache m)) (Some tb) dbTx ?m3 =
        (Returns ([batch, Some b0], None), ?m4)"
      by auto
    from body_resolved_tail [OF fetch beg this body] num show ?thesis
      by (intro exI [of _ batch] exI [of _ err]) (auto simp: new_events_def)
  next
    case False
    then obtain e where e: "err = Some e" "e \<noteq> ErrNotFound"
      by (cases err) auto
    with g have "getCurrentBatches env (LastTrustedBatches (cache m)) (Some tb) dbTx ?m3 =
        (Returns ([], Some e), ?m4)"
      by auto
    from body_resolution_failed [OF fetch beg this body] num e show ?thesis
      by (intro exI [of _ batch] exI [of _ err]) (auto simp: new_events_def)
  qed
qed

lemma body_continue_events:
  assumes "syncTrustedBatchesToFrom_body env n m = (None, m')"
  shows "\<exists>xs. trace m' = trace m @ xs \<and> fetched xs = [uint n] \<and>
              (\<forall>c. committed_from c xs = [uint n])"
  using assms
  by (cases rule: body_cases)
    (simp_all add: fetched_append fetched_lookups committed_from_append committed_from_lookups)

lemma body_error_events:
  assumes "syncTrustedBatchesToFrom_body env n m = (Some (Returns r), m')"
  shows "\<exists>xs. trace m' = trace m @ xs \<and> fetched xs = [uint n] \<and>
              (\<forall>c. committed_from c xs = [])"
  using assms
  by (cases rule: body_cases)
    (simp_all add: fetched_append fetched_lookups committed_from_append committed_from_lookups)

lemma body_fetched:
  assumes "syncTrustedBatchesToFrom_body env n m = (res, m')"
  shows "\<exists>xs. trace m' = trace m @ xs \<and> fetched xs = [uint n]"
  using assms
  by (cases rule: body_cases) (simp_all add: fetched_append fetched_lookups)

subsection \<open>The loop\<close>

lemma loop_stop:
  "n \<le> tip \<Longrightarrow> syncTrustedBatchesToFrom_body env n m = (Some r, m') \<Longrightarrow>
   syncTrustedBatchesToFrom_loop env tip n m = Some (r, m')"
  by (subst syncTrustedBatchesToFrom_loop.simps) simp

lemma loop_continue:
  "n \<le> tip \<Longrightarrow> syncTrustedBatchesToFrom_body env n m = (None, m') \<Longrightarrow>
   syncTrustedBatchesToFrom_loop env tip n m = syncTrustedBatchesToFrom_loop env tip (n + 1) m'"
  by (subst syncTrustedBatchesToFrom_loop.simps) simp

lemma loop_exit:
  "\<not> n \<le> tip \<Longrightarrow> syncTrustedBatchesToFrom_loop env tip n m = Some (Returns None, m)"
  by (subst syncTrustedBatchesToFrom_loop.simps) simp

lemma loop_iterate:
  "iterate_body env n j m = Some mj \<Longrightarrow> unat n + j \<le> unat tip + 1 \<Longrightarrow>
   syncTrustedBatchesToFrom_loop env tip n m =
   syncTrustedBatchesToFrom_loop env tip (n + of_nat j) mj"
proof (induction j arbitrary: n m)
  case 0
  then show ?case by simp
next
  case (Suc j)
  from Suc.prems(1) obtain m1 where
    b: "syncTrustedBatchesToFrom_body env n m = (None, m1)" and
    it: "iterate_body env (n + 1) j m1 = Some mj"
    by (auto split: prod.splits option.splits)
  from Suc.prems(2) have "n \<le> tip" by (simp add: word_le_nat_alt)
  moreover from Suc.prems(2) unat_Suc_le [of n] have "unat (n + 1) + j \<le> unat tip + 1" by linarith
  ultimately show ?case
    using Suc.IH [OF it] b by (simp add: loop_continue add.assoc)
qed

lemma iterate_events:
  "iterate_body env n j m = Some mj \<Longrightarrow> unat n + j \<le> unat (tip::u64) + 1 \<Longrightarrow>
   \<exists>xs. trace mj = trace m @ xs \<and> fetched xs = map (\<lambda>i. uint n + int i) [0..<j] \<and>
        (\<forall>c. committed_from c xs = map (\<lambda>i. uint n + int i) [0..<j])"
proof (induction j arbitrary: n m)
  case 0
  then show ?case by simp
next
  case (Suc j)
  from Suc.prems(1) obtain m1 where
    b: "syncTrustedBatchesToFrom_body env n m = (None, m1)" and
    it: "iterate_body env (n + 1) j m1 = Some mj"
    by (auto split: prod.splits option.splits)
  from body_continue_events [OF b] obtain xs1 where
    xs1: "trace m1 = trace m @ xs1" "fetched xs1 = [uint n]" "\<forall>c. committed_from c xs1 = [uint n]"
    by blast
  from Suc.prems(2) unat_Suc_le [of n] have "unat (n + 1) + j \<le> unat tip + 1" by linarith
  from Suc.IH [OF it this] obtain xs2 where
    xs2: "trace mj = trace m1 @ xs2" "fetched xs2 = map (\<lambda>i. uint (n + 1) + int i) [0..<j]"
      "\<forall>c. committed_from c xs2 = map (\<lambda>i. uint (n + 1) + int i) [0..<j]"
    by blast
  have shift: "map (\<lambda>i. uint (n + 1) + int i) [0..<j] = map (\<lambda>i. uint n + int (Suc i)) [0..<j]"
  proof (cases j)
    case 0
    then show ?thesis by simp
  next
    case (Suc j')
    with Suc.prems(2) have "unat n + 1 \<le> unat tip" by simp
    from uint_add_of_nat [OF this] show ?thesis by (simp add: add.assoc)
  qed
  have "map (\<lambda>i. uint n + int i) [0..<Suc j] = uint n # map (\<lambda>i. uint n + int (Suc i)) [0..<j]"
    by (simp only: map_upt_Suc) simp
  with xs1 xs2 shift show ?case
    by (intro exI [of _ "xs1 @ xs2"]) (simp add: fetched_append committed_from_append)
qed

lemma SyncTrustedState_synchronized:
  assumes "zkEVMClient_BatchNumber env (world m) = ((t, None), w)"
    and "t < (if p = 0 then 1 else p)"
  shows "SyncTrustedState env p m = Some (Returns None, emit w (EBatchNumber t None) m)"
  using assms by (simp add: SyncTrustedState_def isSyncrhonizedTrustedState_def)

lemma SyncTrustedState_not_synchronized:
  assumes "zkEVMClient_BatchNumber env (world m) = ((t, None), w)"
    and "\<not> t < (if p = 0 then 1 else p)"
  shows "SyncTrustedState env p m =
         syncTrustedBatchesToFrom_loop env t (if p = 0 then 1 else p) (emit w (EBatchNumber t None) m)"
  using assms
  by (simp add: SyncTrustedState_def isSyncrhonizedTrustedState_def syncTrustedBatchesToFrom_def)

lemma loop_boundary:
  assumes "t \<noteq> - 1"
  shows "syncTrustedBatchesToFrom_loop env t t m =
         (case syncTrustedBatchesToFrom_body env t m of
            (Some r, m') \<Rightarrow> Some (r, m')
          | (None, m') \<Rightarrow> Some (Returns None, m'))"
proof -
  from assms have "\<not> t + 1 \<le> t"
    by (simp add: inc_less_eq_self_iff_eq)
  then show ?thesis
    by (subst syncTrustedBatchesToFrom_loop.simps) (simp add: loop_exit split: prod.splits option.splits)
qed

section \<open>The synchronised check\<close>

lemma SyncTrustedState_boundary:
  assumes tip: "zkEVMClient_BatchNumber env (world m) = ((t, None), w)"
    and p: "t = (if p = 0 then 1 else p)"
    and t: "t \<noteq> - 1"
  shows "\<exists>r m'. SyncTrustedState env p m = Some (r, m') \<and>
           fetched (new_events m m') = [uint t]"
proof -
  let ?m1 = "emit w (EBatchNumber t None) m"
  obtain res m' where body: "syncTrustedBatchesToFrom_body env t ?m1 = (res, m')"
    by (metis surj_pair)
  from body_fetched [OF body] obtain xs where
    xs: "trace m' = trace m @ EBatchNumber t None # xs" "fetched xs = [uint t]"
    by auto
  from p have "\<not> t < (if p = 0 then 1 else p)"
    by simp
  from SyncTrustedState_not_synchronized [OF tip this] p
  have "SyncTrustedState env p m = syncTrustedBatchesToFrom_loop env t t ?m1"
    by simp
  with loop_boundary [OF t, of env ?m1] body
  have "SyncTrustedState env p m = Some (case res of None \<Rightarrow> Returns None | Some r \<Rightarrow> r, m')"
    by (simp split: option.splits)
  with xs show ?thesis
    by (simp add: new_events_def)
qed

lemma env_ok_pass_continues: "pass_result (env_ok tip) n m = None"
  by (simp add: example_defs run_defs split: list.splits option.splits)

lemma env_ok_loop_not_Some:
  assumes "syncTrustedBatchesToFrom_loop env tip n m = Some y"
  shows "\<not> (env = env_ok 18446744073709551615 \<and> tip = 18446744073709551615)"
proof (rule syncTrustedBatchesToFrom_loop.raw_induct
    [where P = "\<lambda>env tip n m y. \<not> (env = env_ok 18446744073709551615 \<and> tip = 18446744073709551615)",
      OF _ assms])
  fix loop :: "unit env \<Rightarrow> u64 \<Rightarrow> u64 \<Rightarrow> unit machine \<Rightarrow> (error option exec \<times> unit machine) option"
  fix env tip n m y
  assume IH: "\<And>env tip n m y. loop env tip n m = Some y \<Longrightarrow>
      \<not> (env = env_ok 18446744073709551615 \<and> tip = 18446744073709551615)"
    and step: "(if n \<le> tip
      then case syncTrustedBatchesToFrom_body env n m of
           (None, m') \<Rightarrow> loop env tip (n + 1) m'
           | (Some r, m') \<Rightarrow> Some (r, m')
      else Some (Returns None, m)) = Some y"
  show "\<not> (env = env_ok 18446744073709551615 \<and> tip = 18446744073709551615)"
  proof
    assume a: "env = env_ok 18446744073709551615 \<and> tip = 18446744073709551615"
    have "(18446744073709551615 :: u64) = - 1"
      by simp
    with a have "n \<le> tip"
      by (simp only: word_order.extremum)
    with step a pass_eq [of env n m] env_ok_pass_continues [of "18446744073709551615" n m]
    have "loop env tip (n + 1) (pass_state env n m) = Some y"
      by simp
    from IH [OF this] a show False
      by simp
  qed
qed

lemma env_ok_never_returns:
  "SyncTrustedState (env_ok 18446744073709551615) 18446744073709551615 fresh = None"
proof -
  let ?l = "syncTrustedBatchesToFrom_loop (env_ok 18446744073709551615) 18446744073709551615
        18446744073709551615 (emit () (EBatchNumber 18446744073709551615 None) fresh)"
  have "SyncTrustedState (env_ok 18446744073709551615) 18446744073709551615 fresh = ?l"
    by (subst SyncTrustedState_not_synchronized [where t = 18446744073709551615 and w = "()"])
      (simp_all add: env_ok_def scripted_def fresh_def)
  moreover have "\<forall>y. ?l \<noteq> Some y"
  proof (intro allI notI)
    fix y
    assume "?l = Some y"
    from env_ok_loop_not_Some [OF this] show False
      by simp
  qed
  then have "?l = None"
    by (simp only: not_Some_eq)
  ultimately show ?thesis
    by simp
qed

text \<open>
  C1: \<open>SyncTrustedState\<close> treats the state as synchronised exactly when the remote tip
  \<open>t\<close> is below the progress \<open>p\<close> (0 read as 1). When \<open>t < p\<close> it returns nil after its
  one call of BatchNumber: no batch is fetched and no transaction opened
  (\<open>SyncTrustedState_synchronized\<close>). When \<open>t = p\<close> it enters the loop
  (\<open>SyncTrustedState_not_synchronized\<close>), and for \<open>t = p < 2^64 - 1\<close> the loop makes exactly
  one pass, for batch \<open>p\<close> (\<open>SyncTrustedState_boundary\<close>). For \<open>t = p = 2^64 - 1\<close> it does
  not stop there: \<^verbatim>\<open>batchNumberToSync++\<close> wraps around to 0 and \<^verbatim>\<open>0 <= t\<close> holds. Run against a
  remote ledger with tip \<open>2^64 - 1\<close> that knows batch \<open>2^64 - 1\<close> and no other, the call
  fetches and commits batch \<open>2^64 - 1\<close>, then fetches batch 0 and returns the error of that
  second fetch; run against collaborators that always succeed, it never returns.
\<close>
theorem boundary_at_max_runs_second_iteration:
  "map_option (\<lambda>(r, m'). (r, fetched (trace m')))
     (SyncTrustedState env_wrap 18446744073709551615 fresh) =
   Some (Returns (Some (Error ''unknown batch'')), [18446744073709551615, 0]) \<and>
   SyncTrustedState (env_ok 18446744073709551615) 18446744073709551615 fresh = None"
proof -
  let ?max = "18446744073709551615 :: u64"
  let ?m1 = "emit () (EBatchNumber ?max None) fresh"
  let ?m2 = "pass_state env_wrap ?max ?m1"
  let ?m3 = "pass_state env_wrap 0 ?m2"
  have "pass_result env_wrap ?max ?m1 = None"
    by (simp add: example_defs run_defs)
  with pass_eq [of env_wrap ?max ?m1]
  have b1: "syncTrustedBatchesToFrom_body env_wrap ?max ?m1 = (None, ?m2)"
    by simp
  have "pass_result env_wrap 0 ?m2 = Some (Returns (Some (Error ''unknown batch'')))"
    by (simp add: pass_result_def syncTrustedBatchesToFrom_body_def env_wrap_def scripted_def
        remote_only_def Let_def)
  with pass_eq [of env_wrap 0 ?m2]
  have b2: "syncTrustedBatchesToFrom_body env_wrap 0 ?m2 =
      (Some (Returns (Some (Error ''unknown batch''))), ?m3)"
    by simp
  have f3: "fetched (trace ?m3) = [18446744073709551615, 0]"
    by (simp add: example_defs run_defs)
  have wrap: "?max + 1 = 0"
    by simp
  have "SyncTrustedState env_wrap ?max fresh =
      syncTrustedBatchesToFrom_loop env_wrap ?max ?max ?m1"
    by (subst SyncTrustedState_not_synchronized [where t = ?max and w = "()"])
      (simp_all add: env_wrap_def scripted_def fresh_def)
  also have "\<dots> = syncTrustedBatchesToFrom_loop env_wrap ?max 0 ?m2"
    using loop_continue [OF _ b1, of ?max, unfolded wrap] by simp
  also have "\<dots> = Some (Returns (Some (Error ''unknown batch'')), ?m3)"
    using loop_stop [OF _ b2, of ?max] by simp
  finally show ?thesis by (simp add: f3 env_ok_never_returns)
qed

section \<open>Start normalisation\<close>

text \<open>
  C8: a call with progress 0 and a call with progress 1, from the same engine state and
  against the same collaborators, are the same computation: the same calls with the same
  arguments and results (the trace), the same returned value, the same final cache and
  world, and the one returns exactly when the other does.
\<close>
theorem SyncTrustedState_zero_is_one:
  "SyncTrustedState env 0 m = SyncTrustedState env 1 m"
  by (simp add: SyncTrustedState_def)

section \<open>Rollback\<close>



section \<open>Partial failure\<close>

text \<open>
  The loop takes the batch numbers in ascending order from \<open>from\<close>, one transaction
  per pass. If the passes for \<open>from, \<dots>, k - 1\<close> have completed (\<open>j\<close> of them) and the
  pass for \<open>k = from + j\<close>, with \<open>k \<le> tip\<close>, leaves with the error \<open>e\<close> (of the fetch, of
  Begin, of a lookup, of the executor, of the flush check, of Commit or of Rollback), then
  the call returns \<open>e\<close>; the batches requested from the remote ledger are
  \<open>from, \<dots>, k\<close> in this order; and the batches whose transaction was committed are
  \<open>from, \<dots>, k - 1\<close>: batch \<open>k\<close> is not among them.
\<close>
lemma failure_keeps_committed_prefix:
  assumes reach: "iterate_body env from j m = Some mj"
    and range: "unat from + j \<le> unat tip"
    and body: "syncTrustedBatchesToFrom_body env (from + of_nat j) mj = (Some (Returns (Some e)), m')"
  shows "syncTrustedBatchesToFrom env from tip m = Some (Returns (Some e), m') \<and>
         fetched (new_events m m') = map (\<lambda>i. uint from + int i) [0..<Suc j] \<and>
         committed (new_events m m') = map (\<lambda>i. uint from + int i) [0..<j]"
proof -
  from range have le: "from + of_nat j \<le> tip"
    by (simp add: word_le_nat_alt unat_add_of_nat [OF range])
  from range have range': "unat from + j \<le> unat tip + 1" by simp
  from loop_iterate [OF reach range'] loop_stop [OF le body]
  have ret: "syncTrustedBatchesToFrom env from tip m = Some (Returns (Some e), m')"
    by (simp add: syncTrustedBatchesToFrom_def)
  from iterate_events [OF reach range'] obtain xs where
    xs: "trace mj = trace m @ xs" "fetched xs = map (\<lambda>i. uint from + int i) [0..<j]"
      "\<forall>c. committed_from c xs = map (\<lambda>i. uint from + int i) [0..<j]"
    by blast
  from body_error_events [OF body] obtain ys where
    ys: "trace m' = trace mj @ ys" "fetched ys = [uint (from + of_nat j)]"
      "\<forall>c. committed_from c ys = []"
    by blast
  from xs ys have ev: "new_events m m' = xs @ ys" by (simp add: new_events_def)
  from xs ys show ?thesis
    by (simp add: ret ev fetched_append committed_def committed_from_append
        uint_add_of_nat [OF range])
qed

text \<open>
  At a concrete input, the example of the specification: the range 5 to 10, the executor
  failing on batch 8.
\<close>
lemma failure_keeps_committed_prefix_example:
  "iterate_body (env_executor_fails 10 8) 5 (Suc (Suc (Suc 0))) fresh \<noteq> None \<and>
   unat (5::u64) + Suc (Suc (Suc 0)) \<le> unat (10::u64) \<and>
   pass_result (env_executor_fails 10 8) 8
     (after_passes (env_executor_fails 10 8) 5 (Suc (Suc (Suc 0))) fresh) =
     Some (Returns (Some (Error ''bad batch''))) \<and>
   map_option fst (syncTrustedBatchesToFrom (env_executor_fails 10 8) 5 10 fresh) =
     Some (Returns (Some (Error ''bad batch''))) \<and>
   map_option (\<lambda>(r, m'). fetched (trace m'))
     (syncTrustedBatchesToFrom (env_executor_fails 10 8) 5 10 fresh) = Some [5, 6, 7, 8] \<and>
   map_option (\<lambda>(r, m'). committed (trace m'))
     (syncTrustedBatchesToFrom (env_executor_fails 10 8) 5 10 fresh) = Some [5, 6, 7]"
proof -
  let ?E = "env_executor_fails 10 8"
  let ?m = "after_passes ?E 5 (Suc (Suc (Suc 0))) fresh"
  have a1: "iterate_body ?E 5 (Suc (Suc (Suc 0))) fresh = Some ?m"
    by (simp add: example_defs run_defs)
  have a2: "unat (5::u64) + Suc (Suc (Suc 0)) \<le> unat (10::u64)"
    by simp
  have r: "pass_result ?E 8 ?m = Some (Returns (Some (Error ''bad batch'')))"
    by (simp add: example_defs run_defs)
  then have a3: "syncTrustedBatchesToFrom_body ?E (5 + of_nat (Suc (Suc (Suc 0)))) ?m =
      (Some (Returns (Some (Error ''bad batch''))), pass_state ?E 8 ?m)"
    using pass_eq [of ?E 8 ?m] by simp
  have "trace fresh = []"
    by (simp add: fresh_def)
  then have n: "new_events fresh m' = trace m'" for m'
    by (simp add: new_events_def)
  from failure_keeps_committed_prefix [OF a1 a2 a3] a1 a2 r show ?thesis
    by (simp add: n upt_rec)
qed

text \<open>
  When every pass from \<open>from\<close> to \<open>tip\<close> completes and \<open>tip < 2^64 - 1\<close>, the call returns
  nil, having fetched and committed exactly the batches \<open>from, \<dots>, tip\<close> in ascending order.
\<close>
lemma sync_range_success:
  assumes reach: "iterate_body env from (unat tip + 1 - unat from) m = Some mj"
    and le: "from \<le> tip"
    and t: "tip \<noteq> - 1"
  shows "syncTrustedBatchesToFrom env from tip m = Some (Returns None, mj) \<and>
         fetched (new_events m mj) = map (\<lambda>i. uint from + int i) [0..<unat tip + 1 - unat from] \<and>
         committed (new_events m mj) = map (\<lambda>i. uint from + int i) [0..<unat tip + 1 - unat from]"
proof -
  let ?j = "unat tip + 1 - unat from"
  from le have le': "unat from \<le> unat tip"
    by (simp add: word_le_nat_alt)
  then have range: "unat from + ?j \<le> unat tip + 1"
    by simp
  have "(of_nat (unat from + ?j) :: u64) = of_nat (unat tip + 1)"
    using le' by simp
  then have "from + of_nat ?j = tip + 1"
    by (simp del: of_nat_diff)
  moreover from t have "\<not> tip + 1 \<le> tip"
    by (simp add: inc_less_eq_self_iff_eq)
  ultimately have "syncTrustedBatchesToFrom_loop env tip (from + of_nat ?j) mj = Some (Returns None, mj)"
    by (simp add: loop_exit)
  with loop_iterate [OF reach range]
  have ret: "syncTrustedBatchesToFrom env from tip m = Some (Returns None, mj)"
    by (simp add: syncTrustedBatchesToFrom_def)
  from iterate_events [OF reach range] obtain xs where
    "trace mj = trace m @ xs" "fetched xs = map (\<lambda>i. uint from + int i) [0..<?j]"
    "\<forall>c. committed_from c xs = map (\<lambda>i. uint from + int i) [0..<?j]"
    by blast
  with ret show ?thesis
    by (simp add: new_events_def committed_def)
qed

text \<open>
  C3: the engine takes the batch numbers in ascending order from the progress, one
  transaction per pass, and a failing pass for a batch \<open>k\<close> within the range leaves
  \<open>from, \<dots>, k - 1\<close> committed, \<open>k\<close> not committed, and makes the call return its error
  (\<open>failure_keeps_committed_prefix\<close>); without a failure the call ends after the tip when
  the tip is below \<open>2^64 - 1\<close> (\<open>sync_range_success\<close>). With the tip at \<open>2^64 - 1\<close> the
  engine does not end at the tip: \<^verbatim>\<open>batchNumberToSync++\<close> wraps around to 0, \<^verbatim>\<open>0 <= tip\<close>
  holds and the loop goes on with batch 0, which is not within the range. Called for the
  range from \<open>2^64 - 1\<close> to \<open>2^64 - 1\<close> against a remote ledger that knows batch
  \<open>2^64 - 1\<close> and no other, \<open>syncTrustedBatchesToFrom\<close> fetches and commits batch
  \<open>2^64 - 1\<close>, then fetches batch 0 and returns the error of that fetch; against
  collaborators that always succeed it never returns.
\<close>
theorem counter_wraps_past_tip_at_max:
  "map_option (\<lambda>(r, m'). (r, fetched (trace m'), committed (trace m')))
     (syncTrustedBatchesToFrom env_wrap 18446744073709551615 18446744073709551615 fresh) =
   Some (Returns (Some (Error ''unknown batch'')), [18446744073709551615, 0], [18446744073709551615]) \<and>
   syncTrustedBatchesToFrom (env_ok 18446744073709551615) 18446744073709551615
     18446744073709551615 fresh = None"
proof -
  let ?max = "18446744073709551615 :: u64"
  let ?m2 = "pass_state env_wrap ?max fresh"
  let ?m3 = "pass_state env_wrap 0 ?m2"
  have "pass_result env_wrap ?max fresh = None"
    by (simp add: example_defs run_defs)
  with pass_eq [of env_wrap ?max fresh]
  have b1: "syncTrustedBatchesToFrom_body env_wrap ?max fresh = (None, ?m2)"
    by simp
  have "pass_result env_wrap 0 ?m2 = Some (Returns (Some (Error ''unknown batch'')))"
    by (simp add: pass_result_def syncTrustedBatchesToFrom_body_def env_wrap_def scripted_def
        remote_only_def Let_def)
  with pass_eq [of env_wrap 0 ?m2]
  have b2: "syncTrustedBatchesToFrom_body env_wrap 0 ?m2 =
      (Some (Returns (Some (Error ''unknown batch''))), ?m3)"
    by simp
  have f3: "fetched (trace ?m3) = [18446744073709551615, 0]"
    by (simp add: example_defs run_defs)
  have c3: "committed (trace ?m3) = [18446744073709551615]"
    by (simp add: example_defs run_defs committed_def)
  have wrap: "?max + 1 = 0"
    by simp
  have "syncTrustedBatchesToFrom env_wrap ?max ?max fresh =
      syncTrustedBatchesToFrom_loop env_wrap ?max 0 ?m2"
    using loop_continue [OF _ b1, of ?max, unfolded wrap]
    by (simp add: syncTrustedBatchesToFrom_def)
  also have "\<dots> = Some (Returns (Some (Error ''unknown batch'')), ?m3)"
    using loop_stop [OF _ b2, of ?max] by simp
  finally have run: "syncTrustedBatchesToFrom env_wrap ?max ?max fresh =
      Some (Returns (Some (Error ''unknown batch'')), ?m3)" .
  let ?l = "syncTrustedBatchesToFrom_loop (env_ok ?max) ?max ?max fresh"
  have "\<forall>y. ?l \<noteq> Some y"
  proof (intro allI notI)
    fix y
    assume "?l = Some y"
    from env_ok_loop_not_Some [OF this] show False
      by simp
  qed
  then have "?l = None"
    by (simp only: not_Some_eq)
  with run show ?thesis
    by (simp add: f3 c3 syncTrustedBatchesToFrom_def)
qed

section \<open>The cache\<close>

text \<open>
  C4: in one pass through the loop body, (1) every way of leaving the function (an error
  of the fetch, of Begin, of window resolution, of the executor, of the flush check or of
  Commit, and a panic) leaves the cache as it was; (2) a pass that reaches the increment
  ends with a Commit that returned nil, and the cache is then the window that the executor
  returned in that pass; (3) when Commit returns an error \<open>e\<close>, the pass returns \<open>e\<close>,
  Commit is its last call and no Rollback is made.
\<close>
theorem cache_replaced_only_after_commit:
  assumes body: "syncTrustedBatchesToFrom_body env n m = (res, m')"
  shows "(res \<noteq> None \<longrightarrow> cache m' = cache m) \<and>
         (res = None \<longrightarrow>
            (\<exists>pre b st tx. new_events m m' =
               pre @ [EProcessTrustedBatch b st tx (Some (cache m')) None,
                      EProcessTrustedBatchTime, ECheckFlushID tx None, ECommit tx None])) \<and>
         (\<forall>tx e. ECommit tx (Some e) \<in> set (new_events m m') \<longrightarrow>
            res = Some (Returns (Some e)) \<and> last (new_events m m') = ECommit tx (Some e) \<and>
            (\<forall>tx' rb. ERollback tx' rb \<notin> set (new_events m m')))"
  using body
proof (cases rule: body_cases)
  case (committed b tx ls st ts)
  then have "new_events m m' = ([EBatchByNumber (uint n) b None, EGetTrustedBatchInfoTime,
         EBeginStateTransaction tx None] @ ls) @
         [EProcessTrustedBatch b st tx (Some (cache m')) None, EProcessTrustedBatchTime,
          ECheckFlushID tx None, ECommit tx None]"
    by (simp add: new_events_def)
  with committed show ?thesis by (auto simp del: append_assoc append.simps)
qed (auto simp: new_events_def)

text \<open>
  C4 at concrete inputs: a pass in which every collaborator succeeds, and a pass in which
  Commit fails.
\<close>
theorem cache_replaced_only_after_commit_witness:
  "pass_result (env_ok 1) 1 fresh = None \<and>
   cache (pass_state (env_ok 1) 1 fresh) =
     \<lparr>LastTrustedBatches = [Some (local_batch 1), None],
      LastStateRoot = Some \<lparr>batchNumber = 1, EntryStateRoot = 0\<rparr>\<rparr> \<and>
   ECommit 7 None \<in> set (pass_events (env_ok 1) 1 fresh) \<and>
   ECommit 7 (Some (Error ''commit failed'')) \<in> set (pass_events env_commit_fails 1 fresh) \<and>
   pass_result env_commit_fails 1 fresh = Some (Returns (Some (Error ''commit failed''))) \<and>
   last (pass_events env_commit_fails 1 fresh) = ECommit 7 (Some (Error ''commit failed'')) \<and>
   (\<forall>tx rb. ERollback tx rb \<notin> set (pass_events env_commit_fails 1 fresh)) \<and>
   cache (pass_state env_commit_fails 1 fresh) = cache fresh"
proof -
  have a: "pass_result (env_ok 1) 1 fresh = None"
    by (simp add: example_defs run_defs)
  have c: "cache (pass_state (env_ok 1) 1 fresh) =
     \<lparr>LastTrustedBatches = [Some (local_batch 1), None],
      LastStateRoot = Some \<lparr>batchNumber = 1, EntryStateRoot = 0\<rparr>\<rparr>"
    by (simp add: example_defs run_defs)
  from cache_replaced_only_after_commit [OF pass_eq, of "env_ok 1" 1 fresh] a obtain pre b st tx where
    "pass_events (env_ok 1) 1 fresh =
       pre @ [EProcessTrustedBatch b st tx (Some (cache (pass_state (env_ok 1) 1 fresh))) None,
              EProcessTrustedBatchTime, ECheckFlushID tx None, ECommit tx None]"
    unfolding pass_events_def by blast
  moreover have "last (pass_events (env_ok 1) 1 fresh) = ECommit 7 None"
    by (simp add: example_defs run_defs)
  ultimately have k: "ECommit 7 None \<in> set (pass_events (env_ok 1) 1 fresh)"
    by simp
  have f: "ECommit 7 (Some (Error ''commit failed'')) \<in> set (pass_events env_commit_fails 1 fresh)"
    by (simp add: example_defs run_defs)
  from cache_replaced_only_after_commit [OF pass_eq, of env_commit_fails 1 fresh] f
  have "pass_result env_commit_fails 1 fresh = Some (Returns (Some (Error ''commit failed''))) \<and>
    last (pass_events env_commit_fails 1 fresh) = ECommit 7 (Some (Error ''commit failed'')) \<and>
    (\<forall>tx rb. ERollback tx rb \<notin> set (pass_events env_commit_fails 1 fresh)) \<and>
    cache (pass_state env_commit_fails 1 fresh) = cache fresh"
    unfolding pass_events_def by blast
  with a c k f show ?thesis by simp
qed

section \<open>Window resolution\<close>

text \<open>
  C5 as stated does not hold: what the cache holds after a commit is the window that the
  executor returned, whatever it is. Against an executor that answers with an empty window
  and a local store that holds every batch, the call for the range 1 to 2 commits batch 1
  and batch 2 and returns nil, and its pass for batch 2 looks up batch 2 and then batch 1
  again.
\<close>
theorem empty_returned_window_is_looked_up_again:
  "map_option (\<lambda>(r, m'). (r, committed (trace m'), filter is_lookup (trace m')))
     (syncTrustedBatchesToFrom env_forgetful 1 2 fresh) =
   Some (Returns None, [1, 2],
     [EGetBatchByNumber 1 7 (Some (local_batch 1)) None,
      EGetBatchByNumber 0 7 (Some (local_batch 0)) None,
      EGetBatchByNumber 2 7 (Some (local_batch 2)) None,
      EGetBatchByNumber 1 7 (Some (local_batch 1)) None])"
proof -
  let ?E = "env_forgetful"
  let ?m1 = "pass_state ?E 1 fresh"
  let ?m2 = "pass_state ?E 2 ?m1"
  have "pass_result ?E 1 fresh = None"
    by (simp add: example_defs run_defs)
  with pass_eq [of ?E 1 fresh]
  have b1: "syncTrustedBatchesToFrom_body ?E 1 fresh = (None, ?m1)"
    by simp
  have "pass_result ?E 2 ?m1 = None"
    by (simp add: example_defs run_defs)
  with pass_eq [of ?E 2 ?m1]
  have b2: "syncTrustedBatchesToFrom_body ?E 2 ?m1 = (None, ?m2)"
    by simp
  have c: "committed (trace ?m2) = [1, 2]"
    by (simp add: example_defs run_defs committed_def)
  have l: "filter is_lookup (trace ?m2) =
     [EGetBatchByNumber 1 7 (Some (local_batch 1)) None,
      EGetBatchByNumber 0 7 (Some (local_batch 0)) None,
      EGetBatchByNumber 2 7 (Some (local_batch 2)) None,
      EGetBatchByNumber 1 7 (Some (local_batch 1)) None]"
    by (simp add: example_defs run_defs)
  have "syncTrustedBatchesToFrom ?E 1 2 fresh = syncTrustedBatchesToFrom_loop ?E 2 2 ?m1"
    using loop_continue [OF _ b1, of 2] by (simp add: syncTrustedBatchesToFrom_def)
  also have "\<dots> = syncTrustedBatchesToFrom_loop ?E 2 3 ?m2"
    using loop_continue [OF _ b2, of 2] by simp
  also have "\<dots> = Some (Returns None, ?m2)"
    by (simp add: loop_exit)
  finally show ?thesis
    by (simp add: c l)
qed

text \<open>
  C5, amended: for a target batch \<open>tb\<close> with number \<open>N\<close>, \<open>getCurrentBatches\<close> makes no
  lookup in the local store if and only if the cached window is not empty, its slot 0 is
  not nil and the number of that entry is \<open>N\<close>; the window is then returned as it is. If
  slot 0 of the cached window holds the batch numbered \<open>N - 1\<close>, the only lookup is the one
  for \<open>N\<close>: none is made for \<open>N - 1\<close>, and the old slot 0 is the new slot 1. Across two
  passes: if a pass commits and the window that the executor returned in it holds in slot 0
  a non-nil entry \<open>b0\<close>, then that window is the cache after the pass, and a following pass
  whose remote batch bears the number of \<open>b0\<close> plus one makes exactly one lookup, for that
  number, and none for the number of \<open>b0\<close>; when this lookup returns without error or
  with \<^verbatim>\<open>ErrNotFound\<close>, the executor is called once in that pass, with the window made of the
  result of the lookup and \<open>b0\<close>.
\<close>
theorem slot0_reuse_and_roll_forward:
  "((new_events m (snd (getCurrentBatches env batches (Some tb) dbTx m)) = []) =
      (\<exists>b0 rest. batches = Some b0 # rest \<and> BatchNumber b0 = Number tb)) \<and>
   ((\<exists>b0 rest. batches = Some b0 # rest \<and> BatchNumber b0 = Number tb) \<longrightarrow>
      getCurrentBatches env batches (Some tb) dbTx m = (Returns (batches, None), m)) \<and>
   (\<forall>b0 rest. batches = Some b0 # rest \<and> Number tb = BatchNumber b0 + 1 \<longrightarrow>
      (\<exists>batch err. new_events m (snd (getCurrentBatches env batches (Some tb) dbTx m)) =
          [EGetBatchByNumber (BatchNumber b0 + 1) dbTx batch err] \<and>
        (err = None \<or> err = Some ErrNotFound \<longrightarrow>
           fst (getCurrentBatches env batches (Some tb) dbTx m) =
             Returns ([batch, Some b0], None)))) \<and>
   (\<forall>n m0 m1 b st tx ts perr b0 rest n' tb' w1 tx' w2 res m2.
      syncTrustedBatchesToFrom_body env n m0 = (None, m1) \<and>
      EProcessTrustedBatch b st tx (Some ts) perr \<in> set (new_events m0 m1) \<and>
      LastTrustedBatches ts = Some b0 # rest \<and>
      zkEVMClient_BatchByNumber env (uint n') (world m1) = ((Some tb', None), w1) \<and>
      Number tb' = BatchNumber b0 + 1 \<and>
      state_BeginStateTransaction env w1 = ((tx', None), w2) \<and>
      syncTrustedBatchesToFrom_body env n' m1 = (res, m2) \<longrightarrow>
      cache m1 = ts \<and>
      (\<exists>batch err. filter is_lookup (new_events m1 m2) =
          [EGetBatchByNumber (BatchNumber b0 + 1) tx' batch err] \<and>
        (err = None \<or> err = Some ErrNotFound \<longrightarrow>
           executor_windows (new_events m1 m2) = [[batch, Some b0]])))"
proof (intro conjI allI impI)
  obtain batch err w1 where
    l: "state_GetBatchByNumber env (Number tb) dbTx (world m) = ((batch, err), w1)"
    by (metis surj_pair)
  show "(new_events m (snd (getCurrentBatches env batches (Some tb) dbTx m)) = []) =
      (\<exists>b0 rest. batches = Some b0 # rest \<and> BatchNumber b0 = Number tb)"
  proof (cases "batch0_differs batches (Number tb)")
    case True
    with gcb_first_lookup [OF True l] show ?thesis
      by (auto simp: batch0_differs_iff)
  next
    case False
    with gcb_reuse [OF False, of env dbTx m] show ?thesis
      by (simp add: batch0_differs_iff)
  qed
next
  assume "\<exists>b0 rest. batches = Some b0 # rest \<and> BatchNumber b0 = Number tb"
  then have "\<not> batch0_differs batches (Number tb)"
    by (simp add: batch0_differs_iff)
  then show "getCurrentBatches env batches (Some tb) dbTx m = (Returns (batches, None), m)"
    by (rule gcb_reuse)
next
  fix b0 rest
  assume a: "batches = Some b0 # rest \<and> Number tb = BatchNumber b0 + 1"
  obtain batch err w1 where
    l: "state_GetBatchByNumber env (Number tb) dbTx (world m) = ((batch, err), w1)"
    by (metis surj_pair)
  from a gcb_roll [where ?b0.0 = b0 and rest = rest, OF _ l]
  show "\<exists>batch err. new_events m (snd (getCurrentBatches env batches (Some tb) dbTx m)) =
          [EGetBatchByNumber (BatchNumber b0 + 1) dbTx batch err] \<and>
        (err = None \<or> err = Some ErrNotFound \<longrightarrow>
           fst (getCurrentBatches env batches (Some tb) dbTx m) =
             Returns ([batch, Some b0], None))"
    by (intro exI [of _ batch] exI [of _ err]) auto
next
  fix n m0 m1 b st tx ts perr b0 rest n' tb' w1 tx' w2 res m2
  assume a: "syncTrustedBatchesToFrom_body env n m0 = (None, m1) \<and>
      EProcessTrustedBatch b st tx (Some ts) perr \<in> set (new_events m0 m1) \<and>
      LastTrustedBatches ts = Some b0 # rest \<and>
      zkEVMClient_BatchByNumber env (uint n') (world m1) = ((Some tb', None), w1) \<and>
      Number tb' = BatchNumber b0 + 1 \<and>
      state_BeginStateTransaction env w1 = ((tx', None), w2) \<and>
      syncTrustedBatchesToFrom_body env n' m1 = (res, m2)"
  then have c: "cache m1 = ts"
    using body_committed_cache by blast
  then show "cache m1 = ts" .
  from a c have "LastTrustedBatches (cache m1) = Some b0 # rest"
    by simp
  from body_roll_forward [OF this] a
  show "\<exists>batch err. filter is_lookup (new_events m1 m2) =
          [EGetBatchByNumber (BatchNumber b0 + 1) tx' batch err] \<and>
        (err = None \<or> err = Some ErrNotFound \<longrightarrow>
           executor_windows (new_events m1 m2) = [[batch, Some b0]])"
    by blast
qed

text \<open>
  C5 at concrete inputs: the cached window holds batch 5 in slot 0 and the target is batch
  5, then batch 6; a fresh engine makes the pass for batch 1, which commits, and then the
  pass for batch 2.
\<close>
theorem slot0_reuse_and_roll_forward_witness:
  "getCurrentBatches (env_ok 6) [Some (local_batch 5), None] (Some (remote_batch 5)) 7 fresh =
     (Returns ([Some (local_batch 5), None], None), fresh) \<and>
   new_events fresh
     (snd (getCurrentBatches (env_ok 6) [Some (local_batch 5), None] (Some (remote_batch 6)) 7 fresh)) =
     [EGetBatchByNumber 6 7 None (Some ErrNotFound)] \<and>
   fst (getCurrentBatches (env_ok 6) [Some (local_batch 5), None] (Some (remote_batch 6)) 7 fresh) =
     Returns ([None, Some (local_batch 5)], None) \<and>
   pass_result (env_ok 2) 1 fresh = None \<and>
   cache (pass_state (env_ok 2) 1 fresh) =
     \<lparr>LastTrustedBatches = [Some (local_batch 1), None],
      LastStateRoot = Some \<lparr>batchNumber = 1, EntryStateRoot = 0\<rparr>\<rparr> \<and>
   filter is_lookup (pass_events (env_ok 2) 2 (pass_state (env_ok 2) 1 fresh)) =
     [EGetBatchByNumber 2 7 None (Some ErrNotFound)] \<and>
   executor_windows (pass_events (env_ok 2) 2 (pass_state (env_ok 2) 1 fresh)) =
     [[None, Some (local_batch 1)]]"
proof -
  let ?bs = "[Some (local_batch 5), None]"
  have h1: "\<exists>b0 rest. ?bs = Some b0 # rest \<and> BatchNumber b0 = Number (remote_batch 5)"
    by (simp add: local_batch_def remote_batch_def)
  have h2: "?bs = Some (local_batch 5) # [None] \<and>
      Number (remote_batch 6) = BatchNumber (local_batch 5) + 1"
    by (simp add: local_batch_def remote_batch_def)
  have a: "getCurrentBatches (env_ok 6) ?bs (Some (remote_batch 5)) 7 fresh =
      (Returns (?bs, None), fresh)"
    by (rule slot0_reuse_and_roll_forward [THEN conjunct2, THEN conjunct1, THEN mp, OF h1])
  note slot0_reuse_and_roll_forward [of fresh "env_ok 6" ?bs "remote_batch 6" 7, THEN conjunct2, THEN conjunct2,
      THEN conjunct1, THEN spec, THEN spec, THEN mp, OF h2]
  then obtain batch err where b:
    "new_events fresh (snd (getCurrentBatches (env_ok 6) ?bs (Some (remote_batch 6)) 7 fresh)) =
       [EGetBatchByNumber (BatchNumber (local_batch 5) + 1) 7 batch err]"
    "err = None \<or> err = Some ErrNotFound \<longrightarrow>
       fst (getCurrentBatches (env_ok 6) ?bs (Some (remote_batch 6)) 7 fresh) =
         Returns ([batch, Some (local_batch 5)], None)"
    by (elim exE conjE)
  have "new_events fresh (snd (getCurrentBatches (env_ok 6) ?bs (Some (remote_batch 6)) 7 fresh)) =
      [EGetBatchByNumber 6 7 None (Some ErrNotFound)]"
    by (simp add: example_defs run_defs)
  with b have "batch = None" "err = Some ErrNotFound"
    by simp_all
  with a b have first: "getCurrentBatches (env_ok 6) ?bs (Some (remote_batch 5)) 7 fresh =
      (Returns (?bs, None), fresh) \<and>
    new_events fresh (snd (getCurrentBatches (env_ok 6) ?bs (Some (remote_batch 6)) 7 fresh)) =
      [EGetBatchByNumber 6 7 None (Some ErrNotFound)] \<and>
    fst (getCurrentBatches (env_ok 6) ?bs (Some (remote_batch 6)) 7 fresh) =
      Returns ([None, Some (local_batch 5)], None)"
    by (simp add: local_batch_def)
  \<comment> \<open>two passes: batch 1 is committed, then batch 2 is resolved\<close>
  let ?E = "env_ok 2"
  let ?m1 = "pass_state ?E 1 fresh"
  let ?ts = "\<lparr>LastTrustedBatches = [Some (local_batch 1), None],
      LastStateRoot = Some \<lparr>batchNumber = 1, EntryStateRoot = 0\<rparr>\<rparr>"
  have r1: "pass_result ?E 1 fresh = None"
    by (rule env_ok_pass_continues)
  have p1: "syncTrustedBatchesToFrom_body ?E 1 fresh = (None, ?m1)"
    using pass_eq [of ?E 1 fresh] r1 by simp
  have p2: "EProcessTrustedBatch (Some (remote_batch 1))
      \<lparr>LastTrustedBatches = [None, None], LastStateRoot = None\<rparr> 7 (Some ?ts) None
      \<in> set (new_events fresh ?m1)"
    by (simp add: example_defs run_defs)
  have p3: "LastTrustedBatches ?ts = Some (local_batch 1) # [None]"
    by simp
  have p4: "zkEVMClient_BatchByNumber ?E (uint (2::u64)) (world ?m1) =
      ((Some (remote_batch 2), None), ())"
    by (simp add: example_defs run_defs)
  have p5: "Number (remote_batch 2) = BatchNumber (local_batch 1) + 1"
    by (simp add: local_batch_def remote_batch_def)
  have p6: "state_BeginStateTransaction ?E () = ((7, None), ())"
    by (simp add: example_defs run_defs)
  have p7: "syncTrustedBatchesToFrom_body ?E 2 ?m1 = (pass_result ?E 2 ?m1, pass_state ?E 2 ?m1)"
    by (rule pass_eq)
  note h4 = conjI [OF p1 conjI [OF p2 conjI [OF p3 conjI [OF p4 conjI [OF p5 conjI [OF p6 p7]]]]]]
  note slot0_reuse_and_roll_forward [THEN conjunct2, THEN conjunct2, THEN conjunct2,
      THEN spec, THEN spec, THEN spec, THEN spec, THEN spec, THEN spec, THEN spec, THEN spec,
      THEN spec, THEN spec, THEN spec, THEN spec, THEN spec, THEN spec, THEN spec, THEN spec,
      THEN spec, THEN mp, OF h4]
  then obtain batch' err' where c:
    "cache ?m1 = ?ts"
    "filter is_lookup (new_events ?m1 (pass_state ?E 2 ?m1)) =
       [EGetBatchByNumber (BatchNumber (local_batch 1) + 1) 7 batch' err']"
    "err' = None \<or> err' = Some ErrNotFound \<longrightarrow>
       executor_windows (new_events ?m1 (pass_state ?E 2 ?m1)) = [[batch', Some (local_batch 1)]]"
    by (elim exE conjE)
  have "state_GetBatchByNumber ?E 2 7 () = ((None, Some ErrNotFound), ())"
    by (simp add: example_defs run_defs)
  have "filter is_lookup (new_events ?m1 (pass_state ?E 2 ?m1)) =
      [EGetBatchByNumber 2 7 None (Some ErrNotFound)]"
    by (simp add: example_defs run_defs)
  with c have "batch' = None" "err' = Some ErrNotFound"
    by simp_all
  with c have second: "cache ?m1 = ?ts \<and>
      filter is_lookup (pass_events ?E 2 ?m1) = [EGetBatchByNumber 2 7 None (Some ErrNotFound)] \<and>
      executor_windows (pass_events ?E 2 ?m1) = [[None, Some (local_batch 1)]]"
    by (simp add: pass_events_def local_batch_def)
  from first r1 second show ?thesis
    by simp
qed

text \<open>
  C9: when slot 0 of the cached window is not nil and bears the number that the remote
  batch reports, \<open>getCurrentBatches\<close> returns the window as it is and calls nothing, and
  the pass hands exactly this window to the executor right after Begin: slot 1 is not
  compared with \<open>N - 1\<close> and not refreshed, whatever it holds.
\<close>
theorem matching_slot0_passes_window_unchanged:
  assumes cache: "LastTrustedBatches (cache m) = Some b0 # rest"
    and num: "BatchNumber b0 = Number tb"
    and fetch: "zkEVMClient_BatchByNumber env (uint n) (world m) = ((Some tb, None), w1)"
    and beg: "state_BeginStateTransaction env w1 = ((dbTx, None), w2)"
  shows "getCurrentBatches env (Some b0 # rest) (Some tb) dbTx m2 =
           (Returns (Some b0 # rest, None), m2) \<and>
         (\<exists>nts err evs. new_events m (snd (syncTrustedBatchesToFrom_body env n m)) =
            [EBatchByNumber (uint n) (Some tb) None, EGetTrustedBatchInfoTime,
             EBeginStateTransaction dbTx None,
             EProcessTrustedBatch (Some tb)
               \<lparr>LastTrustedBatches = Some b0 # rest, LastStateRoot = LastStateRoot (cache m)\<rparr>
               dbTx nts err] @ evs)"
proof -
  from num have nd: "\<not> batch0_differs (Some b0 # rest) (Number tb)"
    by (simp add: batch0_differs_def)
  obtain res m' where body: "syncTrustedBatchesToFrom_body env n m = (res, m')"
    by (metis surj_pair)
  let ?m3 = "after_begin m (uint n) (Some tb) w1 dbTx w2"
  have g: "getCurrentBatches env (LastTrustedBatches (cache m)) (Some tb) dbTx ?m3 =
      (Returns (Some b0 # rest, None), ?m3)"
    using gcb_reuse [OF nd, of env dbTx ?m3] cache by simp
  from body_resolved [OF fetch beg g body]
  obtain nts err evs where "trace m' = trace m @
      [EBatchByNumber (uint n) (Some tb) None, EGetTrustedBatchInfoTime,
       EBeginStateTransaction dbTx None,
       EProcessTrustedBatch (Some tb)
         \<lparr>LastTrustedBatches = Some b0 # rest, LastStateRoot = LastStateRoot (cache m)\<rparr>
         dbTx nts err] @ evs"
    by auto
  with body gcb_reuse [OF nd, of env dbTx m2] show ?thesis
    by (auto simp: new_events_def)
qed

text \<open>
  C9 at a concrete input: the cached window holds the batches 5 and 9, the remote batch is
  batch 5; the executor receives the window with batch 9 in slot 1.
\<close>
theorem matching_slot0_passes_window_unchanged_witness:
  "LastTrustedBatches (cache (with_cache [Some (local_batch 5), Some (local_batch 9)])) =
     Some (local_batch 5) # [Some (local_batch 9)] \<and>
   BatchNumber (local_batch 5) = Number (remote_batch 5) \<and>
   getCurrentBatches (env_full 5) [Some (local_batch 5), Some (local_batch 9)]
     (Some (remote_batch 5)) 7 fresh =
     (Returns ([Some (local_batch 5), Some (local_batch 9)], None), fresh) \<and>
   take 4 (pass_events (env_full 5) 5 (with_cache [Some (local_batch 5), Some (local_batch 9)])) =
     [EBatchByNumber 5 (Some (remote_batch 5)) None, EGetTrustedBatchInfoTime,
      EBeginStateTransaction 7 None,
      EProcessTrustedBatch (Some (remote_batch 5))
        \<lparr>LastTrustedBatches = [Some (local_batch 5), Some (local_batch 9)], LastStateRoot = None\<rparr>
        7
        (Some \<lparr>LastTrustedBatches = [Some (local_batch 5), Some (local_batch 9)],
               LastStateRoot = Some \<lparr>batchNumber = 5, EntryStateRoot = 0\<rparr>\<rparr>)
        None]"
proof -
  let ?m = "with_cache [Some (local_batch 5), Some (local_batch 9)]"
  have h1: "LastTrustedBatches (cache ?m) = Some (local_batch 5) # [Some (local_batch 9)]"
    by (simp add: with_cache_def)
  have h2: "BatchNumber (local_batch 5) = Number (remote_batch 5)"
    by (simp add: local_batch_def remote_batch_def)
  have h3: "zkEVMClient_BatchByNumber (env_full 5) (uint (5::u64)) (world ?m) =
      ((Some (remote_batch 5), None), ())"
    by (simp add: env_full_def scripted_def remote_all_def)
  have h4: "state_BeginStateTransaction (env_full 5) () = ((7, None), ())"
    by (simp add: env_full_def scripted_def)
  note c = matching_slot0_passes_window_unchanged [OF h1 h2 h3 h4, of fresh]
  from c [THEN conjunct2] obtain nts err evs where
    e: "new_events ?m (snd (syncTrustedBatchesToFrom_body (env_full 5) 5 ?m)) =
      [EBatchByNumber (uint (5::u64)) (Some (remote_batch 5)) None, EGetTrustedBatchInfoTime,
       EBeginStateTransaction 7 None,
       EProcessTrustedBatch (Some (remote_batch 5))
         \<lparr>LastTrustedBatches = Some (local_batch 5) # [Some (local_batch 9)],
          LastStateRoot = LastStateRoot (cache ?m)\<rparr> 7 nts err] @ evs"
    by (elim exE)
  have "pass_events (env_full 5) 5 ?m ! 3 =
      EProcessTrustedBatch (Some (remote_batch 5))
        \<lparr>LastTrustedBatches = [Some (local_batch 5), Some (local_batch 9)], LastStateRoot = None\<rparr>
        7
        (Some \<lparr>LastTrustedBatches = [Some (local_batch 5), Some (local_batch 9)],
               LastStateRoot = Some \<lparr>batchNumber = 5, EntryStateRoot = 0\<rparr>\<rparr>)
        None"
    by (simp add: example_defs run_defs)
  with e have "nts = Some \<lparr>LastTrustedBatches = [Some (local_batch 5), Some (local_batch 9)],
               LastStateRoot = Some \<lparr>batchNumber = 5, EntryStateRoot = 0\<rparr>\<rparr>" "err = None"
    by (simp_all add: pass_events_def pass_state_def)
  with e c [THEN conjunct1] h1 h2 show ?thesis
    by (simp add: pass_events_def pass_state_def with_cache_def)
qed

text \<open>
  C10: the predecessor's number is \<open>N - 1\<close> in unsigned 64-bit arithmetic. When the remote
  batch reports the number 0 and both slots are looked up, the second lookup is for batch
  \<open>2^64 - 1 = 18446744073709551615\<close>.
\<close>
theorem predecessor_of_batch_zero_wraps:
  assumes "Number tb = 0"
    and "batch0_differs batches 0" and "batch0_differs batches 18446744073709551615"
    and "state_GetBatchByNumber env 0 dbTx (world m) = ((batch, err), w1)"
    and "err = None \<or> err = Some ErrNotFound"
    and "state_GetBatchByNumber env 18446744073709551615 dbTx w1 = ((prevBatch, err1), w2)"
  shows "new_events m (snd (getCurrentBatches env batches (Some tb) dbTx m)) =
           [EGetBatchByNumber 0 dbTx batch err,
            EGetBatchByNumber 18446744073709551615 dbTx prevBatch err1]"
proof -
  have eq: "(18446744073709551615 :: u64) = - 1"
    by simp
  show ?thesis
    using assms unfolding eq
    by (auto simp: getCurrentBatches_def Let_def new_events_def emit_def)
qed

text \<open>C10 at a concrete input: an empty cached window and an empty local store.\<close>
theorem predecessor_of_batch_zero_wraps_witness:
  "Number (remote_batch 0) = 0 \<and> batch0_differs [] 0 \<and> batch0_differs [] 18446744073709551615 \<and>
   state_GetBatchByNumber (env_ok 1) 0 7 (world fresh) = ((None, Some ErrNotFound), ()) \<and>
   state_GetBatchByNumber (env_ok 1) 18446744073709551615 7 () = ((None, Some ErrNotFound), ()) \<and>
   new_events fresh (snd (getCurrentBatches (env_ok 1) [] (Some (remote_batch 0)) 7 fresh)) =
     [EGetBatchByNumber 0 7 None (Some ErrNotFound),
      EGetBatchByNumber 18446744073709551615 7 None (Some ErrNotFound)]"
proof -
  have h1: "Number (remote_batch 0) = 0"
    by (simp add: remote_batch_def)
  have h2: "batch0_differs [] 0" "batch0_differs [] 18446744073709551615"
    by (simp_all add: batch0_differs_def)
  have h3: "state_GetBatchByNumber (env_ok 1) 0 7 (world fresh) = ((None, Some ErrNotFound), ())"
    by (simp add: example_defs run_defs)
  have h4: "(Some ErrNotFound :: error option) = None \<or> Some ErrNotFound = Some ErrNotFound"
    by simp
  have h5: "state_GetBatchByNumber (env_ok 1) 18446744073709551615 7 () =
      ((None, Some ErrNotFound), ())"
    by (simp add: example_defs run_defs)
  from predecessor_of_batch_zero_wraps [OF h1 h2 h3 h4 h5] h1 h2 h3 h5 show ?thesis
    by simp
qed

text \<open>
  C6: in a pass that looks up slot 0 (the cached slot 0 is not the batch \<open>N\<close> fetched),
  whether slot 1 is looked up too or taken from the cache: (1) an error other than
  \<^verbatim>\<open>ErrNotFound\<close> from the lookup of slot 0 ends the pass after that lookup and a Rollback;
  (2) such an error from the lookup of slot 1 ends it after the two lookups and a Rollback;
  in both the executor is not called and the pass returns the lookup's error, or the error
  of Rollback if that fails. (3) When both slots are looked up and each lookup returns
  without error or with \<^verbatim>\<open>ErrNotFound\<close>, the executor is called, once, with the window made
  of the two results; (4) so it is when slot 1 is the cached batch \<open>N - 1\<close>, with the window
  made of the result of the one lookup and the cached batch. A not-found result, the nil
  batch with \<^verbatim>\<open>ErrNotFound\<close>, leaves nil in its slot of the window that the executor receives:
  (5) in slot 0 when both slots are looked up, (6) in slot 0 when slot 1 comes from the
  cache, (7) in slot 1. (8) The first call, with an empty cached window and both batches
  not found, calls the executor with both slots nil.
\<close>
theorem not_found_is_absent_other_errors_abort:
  assumes fetch: "zkEVMClient_BatchByNumber env (uint n) (world m) = ((Some tb, None), w1)"
    and beg: "state_BeginStateTransaction env w1 = ((dbTx, None), w2)"
    and differs: "batch0_differs (LastTrustedBatches (cache m)) (Number tb)"
    and l0: "state_GetBatchByNumber env (Number tb) dbTx w2 = ((batch, err0), w3)"
    and l1: "state_GetBatchByNumber env (Number tb - 1) dbTx w3 = ((prevBatch, err1), w4)"
    and body: "syncTrustedBatchesToFrom_body env n m = (res, m')"
  shows
    "(\<forall>e. err0 = Some e \<and> e \<noteq> ErrNotFound \<longrightarrow>
        (\<exists>rb. new_events m m' =
           [EBatchByNumber (uint n) (Some tb) None, EGetTrustedBatchInfoTime,
            EBeginStateTransaction dbTx None,
            EGetBatchByNumber (Number tb) dbTx batch err0, ERollback dbTx rb] \<and>
           res = Some (Returns (Some (case rb of None \<Rightarrow> e | Some re \<Rightarrow> re))))) \<and>
     (\<forall>e. (err0 = None \<or> err0 = Some ErrNotFound) \<and>
          batch0_differs (LastTrustedBatches (cache m)) (Number tb - 1) \<and>
          err1 = Some e \<and> e \<noteq> ErrNotFound \<longrightarrow>
        (\<exists>rb. new_events m m' =
           [EBatchByNumber (uint n) (Some tb) None, EGetTrustedBatchInfoTime,
            EBeginStateTransaction dbTx None,
            EGetBatchByNumber (Number tb) dbTx batch err0,
            EGetBatchByNumber (Number tb - 1) dbTx prevBatch err1, ERollback dbTx rb] \<and>
           res = Some (Returns (Some (case rb of None \<Rightarrow> e | Some re \<Rightarrow> re))))) \<and>
     ((err0 = None \<or> err0 = Some ErrNotFound) \<and>
      batch0_differs (LastTrustedBatches (cache m)) (Number tb - 1) \<and>
      (err1 = None \<or> err1 = Some ErrNotFound) \<longrightarrow>
        (\<exists>nts err evs. new_events m m' =
           [EBatchByNumber (uint n) (Some tb) None, EGetTrustedBatchInfoTime,
            EBeginStateTransaction dbTx None,
            EGetBatchByNumber (Number tb) dbTx batch err0,
            EGetBatchByNumber (Number tb - 1) dbTx prevBatch err1,
            EProcessTrustedBatch (Some tb)
              \<lparr>LastTrustedBatches = [batch, prevBatch], LastStateRoot = LastStateRoot (cache m)\<rparr>
              dbTx nts err] @ evs \<and>
           executor_windows evs = [])) \<and>
     (\<forall>b0 rest. (err0 = None \<or> err0 = Some ErrNotFound) \<and>
          LastTrustedBatches (cache m) = Some b0 # rest \<and> BatchNumber b0 = Number tb - 1 \<longrightarrow>
        (\<exists>nts err evs. new_events m m' =
           [EBatchByNumber (uint n) (Some tb) None, EGetTrustedBatchInfoTime,
            EBeginStateTransaction dbTx None,
            EGetBatchByNumber (Number tb) dbTx batch err0,
            EProcessTrustedBatch (Some tb)
              \<lparr>LastTrustedBatches = [batch, Some b0], LastStateRoot = LastStateRoot (cache m)\<rparr>
              dbTx nts err] @ evs \<and>
           executor_windows evs = [])) \<and>
     (batch = None \<and> err0 = Some ErrNotFound \<and>
      batch0_differs (LastTrustedBatches (cache m)) (Number tb - 1) \<and>
      (err1 = None \<or> err1 = Some ErrNotFound) \<longrightarrow>
        executor_windows (new_events m m') = [[None, prevBatch]]) \<and>
     (\<forall>b0 rest. batch = None \<and> err0 = Some ErrNotFound \<and>
          LastTrustedBatches (cache m) = Some b0 # rest \<and> BatchNumber b0 = Number tb - 1 \<longrightarrow>
        executor_windows (new_events m m') = [[None, Some b0]]) \<and>
     ((err0 = None \<or> err0 = Some ErrNotFound) \<and>
      batch0_differs (LastTrustedBatches (cache m)) (Number tb - 1) \<and>
      prevBatch = None \<and> err1 = Some ErrNotFound \<longrightarrow>
        executor_windows (new_events m m') = [[batch, None]]) \<and>
     (LastTrustedBatches (cache m) = [] \<and> batch = None \<and> err0 = Some ErrNotFound \<and>
      prevBatch = None \<and> err1 = Some ErrNotFound \<longrightarrow>
        executor_windows (new_events m m') = [[None, None]])"
proof -
  let ?m3 = "after_begin m (uint n) (Some tb) w1 dbTx w2"
  let ?m4 = "emit w3 (EGetBatchByNumber (Number tb) dbTx batch err0) ?m3"
  let ?m5 = "emit w4 (EGetBatchByNumber (Number tb - 1) dbTx prevBatch err1) ?m4"
  let ?d1 = "batch0_differs (LastTrustedBatches (cache m)) (Number tb - 1)"
  have e0: "\<exists>rb. new_events m m' =
           [EBatchByNumber (uint n) (Some tb) None, EGetTrustedBatchInfoTime,
            EBeginStateTransaction dbTx None,
            EGetBatchByNumber (Number tb) dbTx batch err0, ERollback dbTx rb] \<and>
           res = Some (Returns (Some (case rb of None \<Rightarrow> e | Some re \<Rightarrow> re)))"
    if "err0 = Some e" "e \<noteq> ErrNotFound" for e
  proof -
    from that l0 have "state_GetBatchByNumber env (Number tb) dbTx (world ?m3) =
        ((batch, Some e), w3)"
      by simp
    from gcb_slot0_error [OF differs this that(2)] that(1)
    have "getCurrentBatches env (LastTrustedBatches (cache m)) (Some tb) dbTx ?m3 =
        (Returns ([], Some e), ?m4)"
      by simp
    from body_resolution_failed [OF fetch beg this body] show ?thesis
      by (auto simp: new_events_def)
  qed
  have e1: "\<exists>rb. new_events m m' =
           [EBatchByNumber (uint n) (Some tb) None, EGetTrustedBatchInfoTime,
            EBeginStateTransaction dbTx None,
            EGetBatchByNumber (Number tb) dbTx batch err0,
            EGetBatchByNumber (Number tb - 1) dbTx prevBatch err1, ERollback dbTx rb] \<and>
           res = Some (Returns (Some (case rb of None \<Rightarrow> e | Some re \<Rightarrow> re)))"
    if "err0 = None \<or> err0 = Some ErrNotFound" ?d1 "err1 = Some e" "e \<noteq> ErrNotFound" for e
  proof -
    note g = gcb_two_lookups [of "LastTrustedBatches (cache m)" tb env dbTx ?m3, OF differs that(2),
      unfolded after_begin_simps, OF l0 l1]
    from that g have "getCurrentBatches env (LastTrustedBatches (cache m)) (Some tb) dbTx ?m3 =
        (Returns ([], Some e), ?m5)"
      by auto
    from body_resolution_failed [OF fetch beg this body] show ?thesis
      by (auto simp: new_events_def)
  qed
  have two: "\<exists>nts err evs. new_events m m' =
           [EBatchByNumber (uint n) (Some tb) None, EGetTrustedBatchInfoTime,
            EBeginStateTransaction dbTx None,
            EGetBatchByNumber (Number tb) dbTx batch err0,
            EGetBatchByNumber (Number tb - 1) dbTx prevBatch err1,
            EProcessTrustedBatch (Some tb)
              \<lparr>LastTrustedBatches = [batch, prevBatch], LastStateRoot = LastStateRoot (cache m)\<rparr>
              dbTx nts err] @ evs \<and>
           executor_windows evs = []"
    if "err0 = None \<or> err0 = Some ErrNotFound" ?d1 "err1 = None \<or> err1 = Some ErrNotFound"
  proof -
    note g = gcb_two_lookups [of "LastTrustedBatches (cache m)" tb env dbTx ?m3, OF differs that(2),
      unfolded after_begin_simps, OF l0 l1]
    from that g have "getCurrentBatches env (LastTrustedBatches (cache m)) (Some tb) dbTx ?m3 =
        (Returns ([batch, prevBatch], None), ?m5)"
      by auto
    from body_resolved_tail [OF fetch beg this body] show ?thesis
      by (auto simp: new_events_def)
  qed
  have one: "\<exists>nts err evs. new_events m m' =
           [EBatchByNumber (uint n) (Some tb) None, EGetTrustedBatchInfoTime,
            EBeginStateTransaction dbTx None,
            EGetBatchByNumber (Number tb) dbTx batch err0,
            EProcessTrustedBatch (Some tb)
              \<lparr>LastTrustedBatches = [batch, Some b0], LastStateRoot = LastStateRoot (cache m)\<rparr>
              dbTx nts err] @ evs \<and>
           executor_windows evs = []"
    if "err0 = None \<or> err0 = Some ErrNotFound" "LastTrustedBatches (cache m) = Some b0 # rest"
      "BatchNumber b0 = Number tb - 1" for b0 rest
  proof -
    from differs that(2) have "batch0_differs (Some b0 # rest) (Number tb)"
      by simp
    note g = gcb_one_lookup [of b0 rest tb env dbTx ?m3, OF this that(3),
      unfolded after_begin_simps, OF l0, folded that(2)]
    from that g have "getCurrentBatches env (LastTrustedBatches (cache m)) (Some tb) dbTx ?m3 =
        (Returns ([batch, Some b0], None), ?m4)"
      by auto
    from body_resolved_tail [OF fetch beg this body] show ?thesis
      by (auto simp: new_events_def)
  qed
  have n0: "executor_windows (new_events m m') = [[None, prevBatch]]"
    if "batch = None" "err0 = Some ErrNotFound" ?d1 "err1 = None \<or> err1 = Some ErrNotFound"
    using two that by auto
  have n0r: "executor_windows (new_events m m') = [[None, Some b0]]"
    if "batch = None" "err0 = Some ErrNotFound" "LastTrustedBatches (cache m) = Some b0 # rest"
      "BatchNumber b0 = Number tb - 1" for b0 rest
    using one [OF _ that(3,4)] that(1,2) by auto
  have n1: "executor_windows (new_events m m') = [[batch, None]]"
    if "err0 = None \<or> err0 = Some ErrNotFound" ?d1 "prevBatch = None" "err1 = Some ErrNotFound"
    using two that by auto
  have nn: "executor_windows (new_events m m') = [[None, None]]"
    if "LastTrustedBatches (cache m) = []" "batch = None" "err0 = Some ErrNotFound"
      "prevBatch = None" "err1 = Some ErrNotFound"
  proof -
    from that(1) have ?d1
      by (simp add: batch0_differs_def)
    with two that show ?thesis
      by auto
  qed
  show ?thesis
  proof (intro conjI allI impI; (elim conjE)?)
    show "\<exists>rb. new_events m m' =
           [EBatchByNumber (uint n) (Some tb) None, EGetTrustedBatchInfoTime,
            EBeginStateTransaction dbTx None,
            EGetBatchByNumber (Number tb) dbTx batch err0, ERollback dbTx rb] \<and>
           res = Some (Returns (Some (case rb of None \<Rightarrow> e | Some re \<Rightarrow> re)))"
      if "err0 = Some e" "e \<noteq> ErrNotFound" for e
      using that by (rule e0)
  qed (rule e1 two one n0 n0r n1 nn; assumption)+
qed

text \<open>
  C6 at concrete inputs: the first pass of a fresh engine for batch 1 against an empty
  store (the executor is called with both slots nil); the pass for batch 2 with batch 1 in
  the cache, against an empty store (slot 0 nil, slot 1 from the cache); a store whose
  lookup of batch 1 fails; the pass for batch 2 with batch 1 in the cache, against a store
  whose lookup of batch 2 fails; a store whose lookup of batch 0 fails.
\<close>
theorem not_found_is_absent_other_errors_abort_witness:
  "LastTrustedBatches (cache fresh) = [] \<and>
   state_GetBatchByNumber (env_ok 1) 1 7 () = ((None, Some ErrNotFound), ()) \<and>
   state_GetBatchByNumber (env_ok 1) 0 7 () = ((None, Some ErrNotFound), ()) \<and>
   take 6 (pass_events (env_ok 1) 1 fresh) =
     [EBatchByNumber 1 (Some (remote_batch 1)) None, EGetTrustedBatchInfoTime,
      EBeginStateTransaction 7 None,
      EGetBatchByNumber 1 7 None (Some ErrNotFound),
      EGetBatchByNumber 0 7 None (Some ErrNotFound),
      EProcessTrustedBatch (Some (remote_batch 1))
        \<lparr>LastTrustedBatches = [None, None], LastStateRoot = None\<rparr> 7
        (Some \<lparr>LastTrustedBatches = [Some (local_batch 1), None],
               LastStateRoot = Some \<lparr>batchNumber = 1, EntryStateRoot = 0\<rparr>\<rparr>)
        None] \<and>
   executor_windows (pass_events (env_ok 1) 1 fresh) = [[None, None]] \<and>
   take 5 (pass_events (env_ok 2) 2 (with_cache [Some (local_batch 1), None])) =
     [EBatchByNumber 2 (Some (remote_batch 2)) None, EGetTrustedBatchInfoTime,
      EBeginStateTransaction 7 None,
      EGetBatchByNumber 2 7 None (Some ErrNotFound),
      EProcessTrustedBatch (Some (remote_batch 2))
        \<lparr>LastTrustedBatches = [None, Some (local_batch 1)], LastStateRoot = None\<rparr> 7
        (Some \<lparr>LastTrustedBatches = [Some (local_batch 2), Some (local_batch 1)],
               LastStateRoot = Some \<lparr>batchNumber = 2, EntryStateRoot = 0\<rparr>\<rparr>)
        None] \<and>
   executor_windows (pass_events (env_ok 2) 2 (with_cache [Some (local_batch 1), None])) =
     [[None, Some (local_batch 1)]] \<and>
   pass_events (env_store_broken 1) 1 fresh =
     [EBatchByNumber 1 (Some (remote_batch 1)) None, EGetTrustedBatchInfoTime,
      EBeginStateTransaction 7 None,
      EGetBatchByNumber 1 7 None (Some (Error ''db down'')), ERollback 7 None] \<and>
   pass_result (env_store_broken 1) 1 fresh = Some (Returns (Some (Error ''db down''))) \<and>
   pass_events (env_store_broken 2) 2 (with_cache [Some (local_batch 1), None]) =
     [EBatchByNumber 2 (Some (remote_batch 2)) None, EGetTrustedBatchInfoTime,
      EBeginStateTransaction 7 None,
      EGetBatchByNumber 2 7 None (Some (Error ''db down'')), ERollback 7 None] \<and>
   pass_result (env_store_broken 2) 2 (with_cache [Some (local_batch 1), None]) =
     Some (Returns (Some (Error ''db down''))) \<and>
   pass_events (env_store_broken 0) 1 fresh =
     [EBatchByNumber 1 (Some (remote_batch 1)) None, EGetTrustedBatchInfoTime,
      EBeginStateTransaction 7 None,
      EGetBatchByNumber 1 7 None (Some ErrNotFound),
      EGetBatchByNumber 0 7 None (Some (Error ''db down'')), ERollback 7 None] \<and>
   pass_result (env_store_broken 0) 1 fresh = Some (Returns (Some (Error ''db down'')))"
proof -
  let ?tb = "remote_batch 1"
  let ?tb2 = "remote_batch 2"
  let ?mc = "with_cache [Some (local_batch 1), None]"
  have d: "batch0_differs (LastTrustedBatches (cache fresh)) (Number ?tb)"
    by (simp add: fresh_def empty_TrustedState_def batch0_differs_def)
  have d1: "batch0_differs (LastTrustedBatches (cache fresh)) (Number ?tb - 1)"
    by (simp add: fresh_def empty_TrustedState_def batch0_differs_def)
  have d2: "batch0_differs (LastTrustedBatches (cache ?mc)) (Number ?tb2)"
    by (simp add: with_cache_def fresh_def batch0_differs_def local_batch_def remote_batch_def)
  have c: "LastTrustedBatches (cache fresh) = []" "LastStateRoot (cache fresh) = None"
    by (simp_all add: fresh_def empty_TrustedState_def)
  have c2: "LastTrustedBatches (cache ?mc) = Some (local_batch 1) # [None]"
    "LastStateRoot (cache ?mc) = None"
    by (simp_all add: with_cache_def)
  have n: "Number ?tb = 1" "Number ?tb - 1 = 0" "uint (1::u64) = 1"
    "Number ?tb2 = 2" "Number ?tb2 - 1 = 1" "uint (2::u64) = 2"
    by (simp_all add: remote_batch_def)
  have nf: "(Some ErrNotFound :: error option) = None \<or> Some ErrNotFound = Some ErrNotFound"
    by simp
  \<comment> \<open>the first call against an empty store\<close>
  have a1: "zkEVMClient_BatchByNumber (env_ok 1) (uint (1::u64)) (world fresh) =
      ((Some ?tb, None), ())"
    by (simp add: example_defs run_defs)
  have a2: "state_BeginStateTransaction (env_ok 1) () = ((7, None), ())"
    by (simp add: example_defs run_defs)
  have a3: "state_GetBatchByNumber (env_ok 1) (Number ?tb) 7 () = ((None, Some ErrNotFound), ())"
    by (simp add: example_defs run_defs)
  have a4: "state_GetBatchByNumber (env_ok 1) (Number ?tb - 1) 7 () =
      ((None, Some ErrNotFound), ())"
    by (simp add: example_defs run_defs)
  note A = not_found_is_absent_other_errors_abort [OF a1 a2 d a3 a4 pass_eq]
  from A [THEN conjunct2, THEN conjunct2, THEN conjunct1, THEN mp, OF conjI [OF nf conjI [OF d1 nf]]]
  obtain nts err evs where a: "new_events fresh (pass_state (env_ok 1) 1 fresh) =
      [EBatchByNumber (uint (1::u64)) (Some ?tb) None, EGetTrustedBatchInfoTime,
       EBeginStateTransaction 7 None,
       EGetBatchByNumber (Number ?tb) 7 None (Some ErrNotFound),
       EGetBatchByNumber (Number ?tb - 1) 7 None (Some ErrNotFound),
       EProcessTrustedBatch (Some ?tb)
         \<lparr>LastTrustedBatches = [None, None], LastStateRoot = LastStateRoot (cache fresh)\<rparr>
         7 nts err] @ evs"
    by (elim exE conjE)
  have "pass_events (env_ok 1) 1 fresh ! 5 =
      EProcessTrustedBatch (Some ?tb)
        \<lparr>LastTrustedBatches = [None, None], LastStateRoot = None\<rparr> 7
        (Some \<lparr>LastTrustedBatches = [Some (local_batch 1), None],
               LastStateRoot = Some \<lparr>batchNumber = 1, EntryStateRoot = 0\<rparr>\<rparr>)
        None"
    by (simp add: example_defs run_defs)
  with a have first: "take 6 (pass_events (env_ok 1) 1 fresh) =
     [EBatchByNumber 1 (Some ?tb) None, EGetTrustedBatchInfoTime,
      EBeginStateTransaction 7 None,
      EGetBatchByNumber 1 7 None (Some ErrNotFound),
      EGetBatchByNumber 0 7 None (Some ErrNotFound),
      EProcessTrustedBatch (Some ?tb)
        \<lparr>LastTrustedBatches = [None, None], LastStateRoot = None\<rparr> 7
        (Some \<lparr>LastTrustedBatches = [Some (local_batch 1), None],
               LastStateRoot = Some \<lparr>batchNumber = 1, EntryStateRoot = 0\<rparr>\<rparr>)
        None]"
    by (simp add: pass_events_def c n)
  have both: "LastTrustedBatches (cache fresh) = [] \<and> (None :: state_Batch option) = None \<and>
      Some ErrNotFound = Some ErrNotFound \<and> (None :: state_Batch option) = None \<and>
      Some ErrNotFound = Some ErrNotFound"
    by (simp add: c)
  from A [THEN conjunct2, THEN conjunct2, THEN conjunct2, THEN conjunct2, THEN conjunct2,
      THEN conjunct2, THEN conjunct2, THEN mp, OF both]
  have first_window: "executor_windows (pass_events (env_ok 1) 1 fresh) = [[None, None]]"
    by (simp add: pass_events_def)
  \<comment> \<open>the pass after a committed batch 1: slot 0 is looked up and not found\<close>
  have r1: "zkEVMClient_BatchByNumber (env_ok 2) (uint (2::u64)) (world ?mc) =
      ((Some ?tb2, None), ())"
    by (simp add: example_defs run_defs)
  have r2: "state_BeginStateTransaction (env_ok 2) () = ((7, None), ())"
    by (simp add: example_defs run_defs)
  have r3: "state_GetBatchByNumber (env_ok 2) (Number ?tb2) 7 () = ((None, Some ErrNotFound), ())"
    by (simp add: example_defs run_defs)
  have r4: "state_GetBatchByNumber (env_ok 2) (Number ?tb2 - 1) 7 () =
      ((None, Some ErrNotFound), ())"
    by (simp add: example_defs run_defs)
  have r5: "BatchNumber (local_batch 1) = Number ?tb2 - 1"
    by (simp add: local_batch_def remote_batch_def)
  note R = not_found_is_absent_other_errors_abort [OF r1 r2 d2 r3 r4 pass_eq]
  from R [THEN conjunct2, THEN conjunct2, THEN conjunct2, THEN conjunct1, THEN spec, THEN spec,
      THEN mp, OF conjI [OF nf conjI [OF c2(1) r5]]]
  obtain nts' err' evs' where r: "new_events ?mc (pass_state (env_ok 2) 2 ?mc) =
      [EBatchByNumber (uint (2::u64)) (Some ?tb2) None, EGetTrustedBatchInfoTime,
       EBeginStateTransaction 7 None,
       EGetBatchByNumber (Number ?tb2) 7 None (Some ErrNotFound),
       EProcessTrustedBatch (Some ?tb2)
         \<lparr>LastTrustedBatches = [None, Some (local_batch 1)],
          LastStateRoot = LastStateRoot (cache ?mc)\<rparr>
         7 nts' err'] @ evs'"
    by (elim exE conjE)
  have "pass_events (env_ok 2) 2 ?mc ! 4 =
      EProcessTrustedBatch (Some ?tb2)
        \<lparr>LastTrustedBatches = [None, Some (local_batch 1)], LastStateRoot = None\<rparr> 7
        (Some \<lparr>LastTrustedBatches = [Some (local_batch 2), Some (local_batch 1)],
               LastStateRoot = Some \<lparr>batchNumber = 2, EntryStateRoot = 0\<rparr>\<rparr>)
        None"
    by (simp add: example_defs run_defs)
  with r have roll: "take 5 (pass_events (env_ok 2) 2 ?mc) =
     [EBatchByNumber 2 (Some ?tb2) None, EGetTrustedBatchInfoTime,
      EBeginStateTransaction 7 None,
      EGetBatchByNumber 2 7 None (Some ErrNotFound),
      EProcessTrustedBatch (Some ?tb2)
        \<lparr>LastTrustedBatches = [None, Some (local_batch 1)], LastStateRoot = None\<rparr> 7
        (Some \<lparr>LastTrustedBatches = [Some (local_batch 2), Some (local_batch 1)],
               LastStateRoot = Some \<lparr>batchNumber = 2, EntryStateRoot = 0\<rparr>\<rparr>)
        None]"
    by (simp add: pass_events_def c2 n)
  have rn: "(None :: state_Batch option) = None \<and> Some ErrNotFound = Some ErrNotFound \<and>
      LastTrustedBatches (cache ?mc) = Some (local_batch 1) # [None] \<and>
      BatchNumber (local_batch 1) = Number ?tb2 - 1"
    using c2(1) r5 by simp
  from R [THEN conjunct2, THEN conjunct2, THEN conjunct2, THEN conjunct2, THEN conjunct2,
      THEN conjunct1, THEN spec, THEN spec, THEN mp, OF rn]
  have roll_window: "executor_windows (pass_events (env_ok 2) 2 ?mc) = [[None, Some (local_batch 1)]]"
    by (simp add: pass_events_def)
  \<comment> \<open>the lookup of slot 0 fails, slot 1 to be looked up\<close>
  have b1: "zkEVMClient_BatchByNumber (env_store_broken 1) (uint (1::u64)) (world fresh) =
      ((Some ?tb, None), ())"
    by (simp add: example_defs run_defs)
  have b2: "state_BeginStateTransaction (env_store_broken 1) () = ((7, None), ())"
    by (simp add: example_defs run_defs)
  have b3: "state_GetBatchByNumber (env_store_broken 1) (Number ?tb) 7 () =
      ((None, Some (Error ''db down'')), ())"
    by (simp add: example_defs run_defs)
  have b4: "state_GetBatchByNumber (env_store_broken 1) (Number ?tb - 1) 7 () =
      ((None, Some ErrNotFound), ())"
    by (simp add: example_defs run_defs)
  have e0: "Some (Error ''db down'') = Some (Error ''db down'') \<and> Error ''db down'' \<noteq> ErrNotFound"
    by simp
  from not_found_is_absent_other_errors_abort [OF b1 b2 d b3 b4 pass_eq, THEN conjunct1, THEN spec, THEN mp, OF e0]
  obtain rb where b: "new_events fresh (pass_state (env_store_broken 1) 1 fresh) =
      [EBatchByNumber (uint (1::u64)) (Some ?tb) None, EGetTrustedBatchInfoTime,
       EBeginStateTransaction 7 None,
       EGetBatchByNumber (Number ?tb) 7 None (Some (Error ''db down'')), ERollback 7 rb]"
    "pass_result (env_store_broken 1) 1 fresh =
       Some (Returns (Some (case rb of None \<Rightarrow> Error ''db down'' | Some re \<Rightarrow> re)))"
    by (elim exE conjE)
  have "last (pass_events (env_store_broken 1) 1 fresh) = ERollback 7 None"
    by (simp add: example_defs run_defs)
  with b have second: "pass_events (env_store_broken 1) 1 fresh =
     [EBatchByNumber 1 (Some ?tb) None, EGetTrustedBatchInfoTime,
      EBeginStateTransaction 7 None,
      EGetBatchByNumber 1 7 None (Some (Error ''db down'')), ERollback 7 None] \<and>
     pass_result (env_store_broken 1) 1 fresh = Some (Returns (Some (Error ''db down'')))"
    by (simp add: pass_events_def n)
  \<comment> \<open>the lookup of slot 0 fails, slot 1 held by the cache\<close>
  have s1: "zkEVMClient_BatchByNumber (env_store_broken 2) (uint (2::u64)) (world ?mc) =
      ((Some ?tb2, None), ())"
    by (simp add: example_defs run_defs)
  have s2: "state_BeginStateTransaction (env_store_broken 2) () = ((7, None), ())"
    by (simp add: example_defs run_defs)
  have s3: "state_GetBatchByNumber (env_store_broken 2) (Number ?tb2) 7 () =
      ((None, Some (Error ''db down'')), ())"
    by (simp add: example_defs run_defs)
  have s4: "state_GetBatchByNumber (env_store_broken 2) (Number ?tb2 - 1) 7 () =
      ((None, Some ErrNotFound), ())"
    by (simp add: example_defs run_defs)
  from not_found_is_absent_other_errors_abort [OF s1 s2 d2 s3 s4 pass_eq, THEN conjunct1, THEN spec, THEN mp, OF e0]
  obtain rbs where s: "new_events ?mc (pass_state (env_store_broken 2) 2 ?mc) =
      [EBatchByNumber (uint (2::u64)) (Some ?tb2) None, EGetTrustedBatchInfoTime,
       EBeginStateTransaction 7 None,
       EGetBatchByNumber (Number ?tb2) 7 None (Some (Error ''db down'')), ERollback 7 rbs]"
    "pass_result (env_store_broken 2) 2 ?mc =
       Some (Returns (Some (case rbs of None \<Rightarrow> Error ''db down'' | Some re \<Rightarrow> re)))"
    by (elim exE conjE)
  have "last (pass_events (env_store_broken 2) 2 ?mc) = ERollback 7 None"
    by (simp add: example_defs run_defs)
  with s have second_roll: "pass_events (env_store_broken 2) 2 ?mc =
     [EBatchByNumber 2 (Some ?tb2) None, EGetTrustedBatchInfoTime,
      EBeginStateTransaction 7 None,
      EGetBatchByNumber 2 7 None (Some (Error ''db down'')), ERollback 7 None] \<and>
     pass_result (env_store_broken 2) 2 ?mc = Some (Returns (Some (Error ''db down'')))"
    by (simp add: pass_events_def n)
  \<comment> \<open>the lookup of slot 1 fails\<close>
  have c1: "zkEVMClient_BatchByNumber (env_store_broken 0) (uint (1::u64)) (world fresh) =
      ((Some ?tb, None), ())"
    by (simp add: example_defs run_defs)
  have c2': "state_BeginStateTransaction (env_store_broken 0) () = ((7, None), ())"
    by (simp add: example_defs run_defs)
  have c3: "state_GetBatchByNumber (env_store_broken 0) (Number ?tb) 7 () =
      ((None, Some ErrNotFound), ())"
    by (simp add: example_defs run_defs)
  have c4: "state_GetBatchByNumber (env_store_broken 0) (Number ?tb - 1) 7 () =
      ((None, Some (Error ''db down'')), ())"
    by (simp add: example_defs run_defs)
  from not_found_is_absent_other_errors_abort [OF c1 c2' d c3 c4 pass_eq, THEN conjunct2, THEN conjunct1, THEN spec, THEN mp,
      OF conjI [OF nf conjI [OF d1 e0]]]
  obtain rb' where cc: "new_events fresh (pass_state (env_store_broken 0) 1 fresh) =
      [EBatchByNumber (uint (1::u64)) (Some ?tb) None, EGetTrustedBatchInfoTime,
       EBeginStateTransaction 7 None,
       EGetBatchByNumber (Number ?tb) 7 None (Some ErrNotFound),
       EGetBatchByNumber (Number ?tb - 1) 7 None (Some (Error ''db down'')), ERollback 7 rb']"
    "pass_result (env_store_broken 0) 1 fresh =
       Some (Returns (Some (case rb' of None \<Rightarrow> Error ''db down'' | Some re \<Rightarrow> re)))"
    by (elim exE conjE)
  have "last (pass_events (env_store_broken 0) 1 fresh) = ERollback 7 None"
    by (simp add: example_defs run_defs)
  with cc have third: "pass_events (env_store_broken 0) 1 fresh =
     [EBatchByNumber 1 (Some ?tb) None, EGetTrustedBatchInfoTime,
      EBeginStateTransaction 7 None,
      EGetBatchByNumber 1 7 None (Some ErrNotFound),
      EGetBatchByNumber 0 7 None (Some (Error ''db down'')), ERollback 7 None] \<and>
     pass_result (env_store_broken 0) 1 fresh = Some (Returns (Some (Error ''db down'')))"
    by (simp add: pass_events_def n)
  from a3 a4 have "state_GetBatchByNumber (env_ok 1) 1 7 () = ((None, Some ErrNotFound), ())"
    "state_GetBatchByNumber (env_ok 1) 0 7 () = ((None, Some ErrNotFound), ())"
    by (simp_all add: n)
  with first first_window roll roll_window second second_roll third c show ?thesis
    by simp
qed


section \<open>Contiguity of the window\<close>

text \<open>
  C7 as stated does not hold: the engine installs the window that the executor returns
  without looking at it. From a fresh engine (empty window), a pass for batch 5 with an
  executor that answers with the batches 5 and 7 commits, and the engine then holds a
  window with both slots populated and \<open>5 \<noteq> 7 + 1\<close>.
\<close>
theorem executor_window_installed_unchecked:
  "returns_requested env_gap \<and>
   contiguous (LastTrustedBatches (cache fresh)) \<and>
   pass_result env_gap 5 fresh = None \<and>
   LastTrustedBatches (cache (pass_state env_gap 5 fresh)) =
     [Some (local_batch 5), Some (local_batch 7)] \<and>
   \<not> contiguous (LastTrustedBatches (cache (pass_state env_gap 5 fresh)))"
proof -
  have "returns_requested env_gap"
    by (simp add: returns_requested_def example_defs run_defs)
  moreover have "contiguous (LastTrustedBatches (cache fresh))"
    by (simp add: contiguous_def fresh_def empty_TrustedState_def)
  moreover have "pass_result env_gap 5 fresh = None"
    by (simp add: example_defs run_defs)
  moreover have c: "LastTrustedBatches (cache (pass_state env_gap 5 fresh)) =
     [Some (local_batch 5), Some (local_batch 7)]"
    by (simp add: example_defs run_defs)
  moreover have "\<not> contiguous [Some (local_batch 5), Some (local_batch 7)]"
    by (simp add: contiguous_def local_batch_def)
  ultimately show ?thesis by simp
qed

text \<open>
  C7, amended: let the local store return only batches that bear the number asked for,
  and let the cached window be contiguous at the start of a pass. Then every window handed
  to the executor in that pass, the result of window resolution, is contiguous; after the
  pass the cache is either unchanged or exactly the window that the executor returned with
  a nil error; hence it is contiguous when the windows returned by the executor are.
\<close>
theorem contiguity_kept_by_resolution:
  assumes rr: "returns_requested env"
    and inv: "contiguous (LastTrustedBatches (cache m))"
    and body: "syncTrustedBatchesToFrom_body env n m = (res, m')"
  shows "(\<forall>b st tx nts err. EProcessTrustedBatch b st tx nts err \<in> set (new_events m m') \<longrightarrow>
            contiguous (LastTrustedBatches st)) \<and>
         (cache m' = cache m \<or>
            (\<exists>b st tx. EProcessTrustedBatch b st tx (Some (cache m')) None \<in> set (new_events m m'))) \<and>
         ((\<forall>b st tx ts err. EProcessTrustedBatch b st tx (Some ts) err \<in> set (new_events m m') \<longrightarrow>
              contiguous (LastTrustedBatches ts)) \<longrightarrow>
            contiguous (LastTrustedBatches (cache m')))"
  using body
proof (cases rule: body_cases)
  case (process_error b tx ls st nts e rb)
  with gcb_contiguous [OF rr inv] inv show ?thesis
    by (auto simp: new_events_def)
next
  case (flush_error b tx ls st nts e rb)
  with gcb_contiguous [OF rr inv] inv show ?thesis
    by (auto simp: new_events_def)
next
  case (commit_error b tx ls st nts e)
  with gcb_contiguous [OF rr inv] inv show ?thesis
    by (auto simp: new_events_def)
next
  case (nil_state b tx ls st)
  with gcb_contiguous [OF rr inv] inv show ?thesis
    by (auto simp: new_events_def)
next
  case (committed b tx ls st ts)
  with gcb_contiguous [OF rr inv] inv show ?thesis
    by (auto simp: new_events_def)
qed (use inv in \<open>auto simp: new_events_def\<close>)

text \<open>
  C7, amended, at a concrete input: the cached window holds the batches 5 and 4, the pass
  is for batch 6, the executor rolls the window forward.
\<close>
theorem contiguity_kept_by_resolution_witness:
  "returns_requested (env_full 6) \<and>
   contiguous (LastTrustedBatches (cache (with_cache [Some (local_batch 5), Some (local_batch 4)]))) \<and>
   pass_result (env_full 6) 6 (with_cache [Some (local_batch 5), Some (local_batch 4)]) = None \<and>
   EProcessTrustedBatch (Some (remote_batch 6))
     \<lparr>LastTrustedBatches = [Some (local_batch 6), Some (local_batch 5)], LastStateRoot = None\<rparr> 7
     (Some \<lparr>LastTrustedBatches = [Some (local_batch 6), Some (local_batch 5)],
            LastStateRoot = Some \<lparr>batchNumber = 6, EntryStateRoot = 0\<rparr>\<rparr>)
     None
     \<in> set (pass_events (env_full 6) 6 (with_cache [Some (local_batch 5), Some (local_batch 4)])) \<and>
   contiguous [Some (local_batch 6), Some (local_batch 5)] \<and>
   cache (pass_state (env_full 6) 6 (with_cache [Some (local_batch 5), Some (local_batch 4)])) =
     \<lparr>LastTrustedBatches = [Some (local_batch 6), Some (local_batch 5)],
      LastStateRoot = Some \<lparr>batchNumber = 6, EntryStateRoot = 0\<rparr>\<rparr> \<and>
   contiguous (LastTrustedBatches
     (cache (pass_state (env_full 6) 6 (with_cache [Some (local_batch 5), Some (local_batch 4)]))))"
proof -
  let ?m = "with_cache [Some (local_batch 5), Some (local_batch 4)]"
  let ?st = "\<lparr>LastTrustedBatches = [Some (local_batch 6), Some (local_batch 5)],
    LastStateRoot = None\<rparr>"
  let ?ts = "\<lparr>LastTrustedBatches = [Some (local_batch 6), Some (local_batch 5)],
    LastStateRoot = Some \<lparr>batchNumber = 6, EntryStateRoot = 0\<rparr>\<rparr>"
  have h1: "returns_requested (env_full 6)"
    by (simp add: returns_requested_def example_defs run_defs)
  have h2: "contiguous (LastTrustedBatches (cache ?m))"
    by (simp add: contiguous_def with_cache_def local_batch_def)
  have r: "pass_result (env_full 6) 6 ?m = None"
    by (simp add: example_defs run_defs)
  have ev: "pass_events (env_full 6) 6 ?m =
      [EBatchByNumber 6 (Some (remote_batch 6)) None, EGetTrustedBatchInfoTime,
       EBeginStateTransaction 7 None,
       EGetBatchByNumber 6 7 (Some (local_batch 6)) None,
       EProcessTrustedBatch (Some (remote_batch 6)) ?st 7 (Some ?ts) None,
       EProcessTrustedBatchTime, ECheckFlushID 7 None, ECommit 7 None]"
    by (simp add: example_defs run_defs)
  then have p: "EProcessTrustedBatch (Some (remote_batch 6)) ?st 7 (Some ?ts) None
      \<in> set (new_events ?m (pass_state (env_full 6) 6 ?m))"
    by (simp add: pass_events_def)
  have k: "cache (pass_state (env_full 6) 6 ?m) = ?ts"
    by (simp add: example_defs run_defs)
  note t = contiguity_kept_by_resolution [OF h1 h2 pass_eq]
  from t [THEN conjunct1, THEN spec, THEN spec, THEN spec, THEN spec, THEN spec, THEN mp, OF p]
  have w: "contiguous [Some (local_batch 6), Some (local_batch 5)]"
    by simp
  have "\<forall>b st tx ts err. EProcessTrustedBatch b st tx (Some ts) err
      \<in> set (new_events ?m (pass_state (env_full 6) 6 ?m)) \<longrightarrow> contiguous (LastTrustedBatches ts)"
    using ev w by (auto simp: pass_events_def)
  from t [THEN conjunct2, THEN conjunct2, THEN mp, OF this]
  have "contiguous (LastTrustedBatches (cache (pass_state (env_full 6) 6 ?m)))" .
  with h1 h2 r p w k show ?thesis
    by (simp add: pass_events_def)
qed

end
